theory Spec2Isabelle
  imports Main "HOL-Library.Sublist"
begin

section \<open>Python strings\<close>

text \<open>
  A Python \<open>str\<close> is modelled as a \<open>string\<close>, read as a list of code points below 256
  (Latin-1). \<open>len\<close> is \<open>length\<close>, a slice \<open>s[:n]\<close> is \<open>take n s\<close>, \<open>+\<close> is \<open>@\<close>.
  On these code points \<open>str.isspace\<close>, \<open>str.lower\<close>, \<open>str.strip\<close>, \<open>str.split\<close>,
  \<open>str.join\<close>, \<open>str.replace\<close> and the substring test \<open>in\<close> are as below.
\<close>

definition nl :: char where
  "nl = CHR 0x0A"

definition apostrophe :: char where
  "apostrophe = CHR 0x27"

definition backslash :: char where
  "backslash = CHR 0x5C"

text \<open>The code points below 256 for which \<open>str.isspace\<close> holds.\<close>

definition is_space :: "char \<Rightarrow> bool" where
  "is_space c = (of_char c \<in> set [9, 10, 11, 12, 13, 28, 29, 30, 31, 32, 133, 160 :: nat])"

text \<open>\<open>str.lower\<close>: A-Z and the Latin-1 capitals (all of 0xC0..0xDE but the sign 0xD7)
  move up by 32.\<close>

definition lower_char :: "char \<Rightarrow> char" where
  "lower_char c = (let n = (of_char c :: nat) in
     if (65 \<le> n \<and> n \<le> 90) \<or> (192 \<le> n \<and> n \<le> 222 \<and> n \<noteq> 215)
     then char_of (n + 32) else c)"

definition str_lower :: "string \<Rightarrow> string" where
  "str_lower s = map lower_char s"

definition str_strip :: "string \<Rightarrow> string" where
  "str_strip s = rev (dropWhile is_space (rev (dropWhile is_space s)))"

text \<open>\<open>s.split()\<close>: the maximal runs of non-space characters, scanned left to right; the
  first argument is the word being read, reversed.\<close>

fun split_scan :: "string \<Rightarrow> string \<Rightarrow> string list" where
  "split_scan w [] = (if w = [] then [] else [rev w])"
| "split_scan w (c # cs) =
     (if is_space c then (if w = [] then split_scan [] cs else rev w # split_scan [] cs)
      else split_scan (c # w) cs)"

definition str_split :: "string \<Rightarrow> string list" where
  "str_split s = split_scan [] s"

text \<open>\<open>' '.join(ws)\<close>.\<close>

fun join_space :: "string list \<Rightarrow> string" where
  "join_space [] = []"
| "join_space [w] = w"
| "join_space (w # v # ws) = w @ '' '' @ join_space (v # ws)"

text \<open>\<open>s.replace(" " + p, p)\<close> for one character \<open>p\<close>: every occurrence of a space followed
  by \<open>p\<close>, found left to right without overlap, becomes \<open>p\<close>.\<close>

fun replace_space_before :: "char \<Rightarrow> string \<Rightarrow> string" where
  "replace_space_before p [] = []"
| "replace_space_before p [c] = [c]"
| "replace_space_before p (c # d # cs) =
     (if c = CHR '' '' \<and> d = p then p # replace_space_before p cs
      else c # replace_space_before p (d # cs))"

text \<open>\<open>needle in hay\<close>.\<close>

fun str_contains :: "string \<Rightarrow> string \<Rightarrow> bool" where
  "str_contains needle [] = (needle = [])"
| "str_contains needle (c # cs) = (prefix needle (c # cs) \<or> str_contains needle cs)"

text \<open>A value read with \<open>state.get(key)\<close> or \<open>os.environ.get(key)\<close> and used only through
  its truth value and, when true, its text: \<open>None\<close>, a missing key and the empty string
  are all false.\<close>

definition get_str :: "string option \<Rightarrow> string" where
  "get_str v = (case v of None \<Rightarrow> [] | Some x \<Rightarrow> x)"

section \<open>Exceptions\<close>

text \<open>
  An exception is its class and its text \<open>str(e)\<close>. The classes are those the handlers
  of the source tell apart (\<open>except ImportError\<close>, \<open>except (OSError, ImportError)\<close>) and
  those it raises; a class stands for its subclasses, \<open>OtherError\<close> for every other
  subclass of \<open>Exception\<close>.
\<close>

datatype exn_class = ImportError | OSError | KeyError | TypeError | ValueError | RuntimeError | OtherError

datatype exn = Exn (exn_class: exn_class) (exn_str: string)

text \<open>\<open>except Exception as e: raise ValueError(prefix + str(e))\<close>.\<close>

definition reraise :: "string \<Rightarrow> exn + 'a \<Rightarrow> exn + 'a" where
  "reraise pre r = (case r of Inl e \<Rightarrow> Inl (Exn ValueError (pre @ exn_str e)) | Inr x \<Rightarrow> Inr x)"

section \<open>schema.py: documents and the agent state\<close>

datatype meta_val = MStr string | MInt int

type_synonym meta = "(string \<times> meta_val) list"

record document =
  page_content :: string
  doc_metadata :: meta

text \<open>
  \<open>AgentState\<close> is a \<open>TypedDict\<close> with \<open>total=False\<close>: every key may be missing. A field
  is \<open>None\<close> when its key is missing; \<open>{**state, "k": v}\<close> is the record update.
\<close>

record agent_state =
  file_path :: "string option"
  pre_processed_content :: "string option"
  question :: "string option"
  documents :: "document list option"
  metadata :: "meta option"
  answer :: "string option"
  error :: "string option"

section \<open>The platform and the libraries\<close>

datatype engine = Openpyxl | Xlrd

datatype extractor = Excel | Docx | Doc | Pdf | Text | PowerPoint

text \<open>
  Everything the source calls outside the repository is a field of the environment:
  \<^item> \<open>splitext\<close>, \<open>basename\<close>, \<open>path_join\<close>, \<open>expanduser\<close>, \<open>path_exists\<close>, \<open>getsize\<close>:
    \<open>os.path\<close>;
  \<^item> \<open>getenv\<close>: \<open>os.environ.get\<close>; \<open>platform_system\<close>: \<open>platform.system()\<close>; \<open>which\<close>:
    \<open>shutil.which\<close>;
  \<^item> \<open>openpyxl_installed\<close>: \<open>importlib.util.find_spec("openpyxl")\<close> is not \<open>None\<close>;
  \<^item> \<open>read_excel engine path\<close>: \<open>pd.read_excel(path, sheet_name=None, engine=...)\<close>
    followed by \<open>df.to_string()\<close> on every sheet, as the list of sheet names with their
    renderings;
  \<^item> \<open>docx2txt_process\<close>: \<open>docx2txt.process\<close>;
  \<^item> \<open>convert_file path fmt\<close>: \<open>pypandoc.convert_file(path, 'plain', format=fmt)\<close>;
  \<^item> \<open>get_pandoc_path\<close>: \<open>pypandoc.get_pandoc_path()\<close>;
  \<^item> \<open>pandoc_subprocess pandoc path fmt\<close>: the temporary file, \<open>subprocess.run\<close> of
    pandoc on it and the reading back of its output;
  \<^item> \<open>pdf_reader path\<close>: opening the file and \<open>PyPDF2.PdfReader\<close>, as the list of what
    \<open>extract_text()\<close> gives on each page;
  \<^item> \<open>read_text_file\<close>: \<open>open(path, 'r', encoding='utf-8').read()\<close>;
  \<^item> \<open>chat_groq key\<close>: the construction of \<open>ChatGroq\<close> with the value of
    \<open>os.getenv("GROQ_API_KEY")\<close>, \<open>Some e\<close> when it raises;
  \<^item> \<open>llm_invoke desc context question\<close>: \<open>chain.invoke\<close> with the system prompt built
    for \<open>desc\<close>, as \<open>response.content\<close>.
  A call that may raise returns a sum, \<open>Inl\<close> the exception.
\<close>

record env =
  splitext :: "string \<Rightarrow> string \<times> string"
  basename :: "string \<Rightarrow> string"
  path_join :: "string list \<Rightarrow> string"
  expanduser :: "string \<Rightarrow> string"
  path_exists :: "string \<Rightarrow> bool"
  getsize :: "string \<Rightarrow> exn + nat"
  getenv :: "string \<Rightarrow> string option"
  platform_system :: string
  which :: "string \<Rightarrow> string option"
  openpyxl_installed :: bool
  read_excel :: "engine \<Rightarrow> string \<Rightarrow> exn + (string \<times> string) list"
  docx2txt_process :: "string \<Rightarrow> exn + string"
  convert_file :: "string \<Rightarrow> string option \<Rightarrow> exn + string"
  get_pandoc_path :: "exn + string"
  pandoc_subprocess :: "string \<Rightarrow> string \<Rightarrow> string \<Rightarrow> exn + string"
  pdf_reader :: "string \<Rightarrow> exn + (exn + string) list"
  read_text_file :: "string \<Rightarrow> exn + string"
  chat_groq :: "string option \<Rightarrow> exn option"
  llm_invoke :: "string \<Rightarrow> string \<Rightarrow> string \<Rightarrow> exn + string"

text \<open>
  What a run does to the outside is recorded as a list of events, in order: the nodes
  the graph runs, the extractor a dispatch enters, every library call that reads a
  document, the writes to \<open>os.environ\<close>, and the construction and the call of the
  language model.
\<close>

datatype event =
    NodeRun string
  | ExtractorCall extractor string
  | ReadExcel engine string
  | Docx2txt string
  | PandocConvert string "string option"
  | PandocSubprocess string string string
  | OpenPdf string
  | ExtractPage string nat
  | ReadTextFile string
  | SetEnviron string string
  | ChatGroqInit
  | LLMInvoke string string string

section \<open>processors.py: the extractors\<close>

text \<open>\<open>sum(len(doc.page_content) for doc in documents)\<close>.\<close>

definition content_length :: "document list \<Rightarrow> int" where
  "content_length docs = int (sum_list (map (\<lambda>d. length (page_content d)) docs))"

text \<open>The state an extractor returns: \<open>{**state, "documents": docs, "metadata": m}\<close>.\<close>

definition extracted :: "agent_state \<Rightarrow> document list \<Rightarrow> meta \<Rightarrow> agent_state" where
  "extracted s docs m = s\<lparr>documents := Some docs, metadata := Some m\<rparr>"

text \<open>The state of the extractors that return one document of the whole text.\<close>

definition single_document :: "agent_state \<Rightarrow> string \<Rightarrow> meta \<Rightarrow> string \<Rightarrow> agent_state" where
  "single_document s text doc_meta file_type =
     extracted s [\<lparr>page_content = text, doc_metadata = doc_meta\<rparr>]
       [(''file_type'', MStr file_type), (''document_count'', MInt 1),
        (''content_length'', MInt (int (length text)))]"

subsection \<open>\<open>_process_excel\<close>\<close>

definition excel_documents :: "string \<Rightarrow> (string \<times> string) list \<Rightarrow> document list" where
  "excel_documents fp sheets =
     map (\<lambda>(sheet_name, df).
            \<lparr>page_content = ''Sheet: '' @ sheet_name @ [nl] @ df @ [nl, nl],
             doc_metadata = [(''source'', MStr fp), (''file_type'', MStr ''excel''),
                             (''sheet'', MStr sheet_name)]\<rparr>) sheets"

definition excel_state :: "agent_state \<Rightarrow> string \<Rightarrow> (string \<times> string) list \<Rightarrow> agent_state" where
  "excel_state s fp sheets =
     (let docs = excel_documents fp sheets in
      extracted s docs
        [(''file_type'', MStr ''excel''), (''document_count'', MInt (int (length docs))),
         (''content_length'', MInt (content_length docs))])"

definition process_excel ::
  "env \<Rightarrow> agent_state \<Rightarrow> string \<Rightarrow> string \<Rightarrow> (exn + agent_state) \<times> event list" where
  "process_excel env s fp file_ext =
     (let (r, t) =
        (if \<not> openpyxl_installed env then
           (Inl (Exn ValueError (''Excel processing error: '' @
              ''Missing required dependency 'openpyxl' for Excel processing. Please install with: pip install openpyxl'')),
            [])
         else
           (case read_excel env Openpyxl fp of
              Inr sheets \<Rightarrow> (Inr (excel_state s fp sheets), [ReadExcel Openpyxl fp])
            | Inl e \<Rightarrow>
                if exn_class e = ImportError then
                  (Inl (Exn ValueError (''Excel processing error: '' @ exn_str e)),
                   [ReadExcel Openpyxl fp])
                else
                  (case read_excel env Xlrd fp of
                     Inr sheets \<Rightarrow>
                       (Inr (excel_state s fp sheets), [ReadExcel Openpyxl fp, ReadExcel Xlrd fp])
                   | Inl xlrd_e \<Rightarrow>
                       (Inl (Exn ValueError
                          (''Failed to process Excel file with both openpyxl and xlrd engines: '' @
                           exn_str e @ '' and '' @ exn_str xlrd_e)),
                        [ReadExcel Openpyxl fp, ReadExcel Xlrd fp]))))
      in (reraise ''Error processing Excel file: '' r, ExtractorCall Excel fp # t))"

subsection \<open>\<open>_process_docx\<close>, \<open>_process_doc\<close>, \<open>_process_text\<close>\<close>

definition process_docx :: "env \<Rightarrow> agent_state \<Rightarrow> string \<Rightarrow> (exn + agent_state) \<times> event list" where
  "process_docx env s fp =
     (reraise ''Error processing Word document: ''
        (case docx2txt_process env fp of
           Inl e \<Rightarrow> Inl e
         | Inr text \<Rightarrow>
             Inr (single_document s text [(''source'', MStr fp), (''file_type'', MStr ''word'')] ''word'')),
      [ExtractorCall Docx fp, Docx2txt fp])"

definition process_doc :: "env \<Rightarrow> agent_state \<Rightarrow> string \<Rightarrow> (exn + agent_state) \<times> event list" where
  "process_doc env s fp =
     (reraise ''Error processing older Word document: ''
        (case convert_file env fp None of
           Inl e \<Rightarrow> Inl e
         | Inr text \<Rightarrow>
             Inr (single_document s text [(''source'', MStr fp), (''file_type'', MStr ''word'')] ''word'')),
      [ExtractorCall Doc fp, PandocConvert fp None])"

definition process_text :: "env \<Rightarrow> agent_state \<Rightarrow> string \<Rightarrow> (exn + agent_state) \<times> event list" where
  "process_text env s fp =
     (reraise ''Error processing text file: ''
        (case read_text_file env fp of
           Inl e \<Rightarrow> Inl e
         | Inr text \<Rightarrow>
             Inr (single_document s text [(''source'', MStr fp), (''file_type'', MStr ''text'')] ''text'')),
      [ExtractorCall Text fp, ReadTextFile fp])"

subsection \<open>\<open>_process_pdf\<close>\<close>

text \<open>\<open>text and text.strip()\<close>, also written \<open>content and len(content.strip()) > 0\<close>.\<close>

definition non_blank :: "string \<Rightarrow> bool" where
  "non_blank text = (text \<noteq> [] \<and> str_strip text \<noteq> [])"

text \<open>The loop over the pages, from page index \<open>i\<close> with the documents collected so far;
  an \<open>extract_text\<close> that raises ends it.\<close>

fun pdf_pages ::
  "string \<Rightarrow> nat \<Rightarrow> (exn + string) list \<Rightarrow> document list \<Rightarrow> (exn + document list) \<times> event list" where
  "pdf_pages fp i [] docs = (Inr docs, [])"
| "pdf_pages fp i (page # pages) docs =
     (case page of
        Inl e \<Rightarrow> (Inl e, [ExtractPage fp (i + 1)])
      | Inr text \<Rightarrow>
          (let docs' =
             (if non_blank text then
                docs @ [\<lparr>page_content = text,
                          doc_metadata = [(''source'', MStr fp), (''file_type'', MStr ''pdf''),
                                          (''page'', MInt (int (i + 1)))]\<rparr>]
              else docs);
               (r, t) = pdf_pages fp (i + 1) pages docs'
           in (r, ExtractPage fp (i + 1) # t)))"

text \<open>The clean-up of one extracted text.\<close>

definition pdf_clean :: "string \<Rightarrow> string" where
  "pdf_clean text =
     replace_space_before (CHR '','') (replace_space_before (CHR ''.'') (join_space (str_split text)))"

definition pdf_state :: "agent_state \<Rightarrow> nat \<Rightarrow> document list \<Rightarrow> agent_state" where
  "pdf_state s num_pages docs =
     (let cleaned_documents = map (\<lambda>d. \<lparr>page_content = pdf_clean (page_content d),
                                          doc_metadata = doc_metadata d\<rparr>) docs
      in extracted s cleaned_documents
           [(''file_type'', MStr ''pdf''), (''document_count'', MInt (int (length cleaned_documents))),
            (''page_count'', MInt (int num_pages)),
            (''content_length'', MInt (content_length cleaned_documents))])"

text \<open>The second extraction path, taken when no page gave a document.\<close>

definition pdf_fallback :: "env \<Rightarrow> string \<Rightarrow> document list \<times> event list" where
  "pdf_fallback env fp =
     ((case convert_file env fp None of
         Inl pandoc_err \<Rightarrow> []
       | Inr text \<Rightarrow>
           if non_blank text then
             [\<lparr>page_content = text,
               doc_metadata = [(''source'', MStr fp), (''file_type'', MStr ''pdf''),
                               (''extraction_method'', MStr ''pypandoc'')]\<rparr>]
           else []),
      [PandocConvert fp None])"

definition process_pdf :: "env \<Rightarrow> agent_state \<Rightarrow> string \<Rightarrow> (exn + agent_state) \<times> event list" where
  "process_pdf env s fp =
     (let (r, t) =
        (case pdf_reader env fp of
           Inl e \<Rightarrow> (Inl e, [OpenPdf fp])
         | Inr pages \<Rightarrow>
             (case pdf_pages fp 0 pages [] of
                (Inl e, t1) \<Rightarrow> (Inl e, OpenPdf fp # t1)
              | (Inr docs, t1) \<Rightarrow>
                  (let (docs2, t2) = (if docs = [] then pdf_fallback env fp else (docs, []))
                   in if docs2 = [] then
                        (Inl (Exn ValueError
                           ''No text content found in PDF. The PDF might be scanned or protected.''),
                         OpenPdf fp # t1 @ t2)
                      else (Inr (pdf_state s (length pages) docs2), OpenPdf fp # t1 @ t2))))
      in (reraise ''Error processing PDF file: '' r, ExtractorCall Pdf fp # t))"

subsection \<open>\<open>_process_powerpoint\<close>\<close>

text \<open>The well-known install paths searched when \<open>pypandoc\<close> finds no pandoc.\<close>

definition possible_paths :: "env \<Rightarrow> string list" where
  "possible_paths env =
     (let system = str_lower (platform_system env) in
      if system = ''windows'' then
        [path_join env
           [(case getenv env ''ProgramFiles'' of None \<Rightarrow> ''C:'' @ [backslash] @ ''Program Files'' | Some v \<Rightarrow> v),
            ''Pandoc'', ''pandoc.exe''],
         path_join env
           [(case getenv env ''ProgramFiles(x86)'' of
               None \<Rightarrow> ''C:'' @ [backslash] @ ''Program Files (x86)'' | Some v \<Rightarrow> v),
            ''Pandoc'', ''pandoc.exe''],
         expanduser env
           (''~'' @ [backslash] @ ''AppData'' @ [backslash] @ ''Local'' @ [backslash] @ ''Pandoc'' @
            [backslash] @ ''pandoc.exe'')]
      else if system = ''darwin'' then
        [''/usr/local/bin/pandoc'', ''/opt/homebrew/bin/pandoc'', ''/opt/local/bin/pandoc'']
      else [''/usr/bin/pandoc'', ''/usr/local/bin/pandoc''])"

definition pandoc_not_found :: string where
  "pandoc_not_found =
     ''Pandoc not found. Please install Pandoc from https://pandoc.org/installing.html'' @
     '' or run the add_pandoc_to_path.bat script (on Windows) to add it to your PATH.''"

text \<open>The detection of pandoc: the path found, or the exception raised. The variable
  \<open>pandoc_path\<close> is a string here, empty while it is \<open>None\<close>.\<close>

definition locate_pandoc :: "env \<Rightarrow> (exn + string) \<times> event list" where
  "locate_pandoc env =
     (case
        (if get_str (getenv env ''PYPANDOC_PANDOC'') \<noteq> [] then
           Inr (get_str (getenv env ''PYPANDOC_PANDOC''), [])
         else
           (case get_pandoc_path env of
              Inr p \<Rightarrow> Inr (p, [])
            | Inl e \<Rightarrow>
                if exn_class e = OSError \<or> exn_class e = ImportError then
                  (case find (path_exists env) (possible_paths env) of
                     Some p \<Rightarrow> Inr (p, [SetEnviron ''PYPANDOC_PANDOC'' p])
                   | None \<Rightarrow> Inr ([], []))
                else Inl e))
      of
        Inl e \<Rightarrow> (Inl e, [])
      | Inr (p1, t1) \<Rightarrow>
          (let (p2, t2) =
             (if p1 = [] then
                (let w = get_str (which env ''pandoc'')
                 in (w, if w \<noteq> [] then [SetEnviron ''PYPANDOC_PANDOC'' w] else []))
              else (p1, []))
           in if p2 = [] then (Inl (Exn RuntimeError pandoc_not_found), t1 @ t2)
              else (Inr p2, t1 @ t2)))"

definition powerpoint_state :: "agent_state \<Rightarrow> string \<Rightarrow> string \<Rightarrow> string \<Rightarrow> agent_state" where
  "powerpoint_state s fp content extraction_method =
     single_document s content
       [(''source'', MStr fp), (''file_type'', MStr ''powerpoint''),
        (''extraction_method'', MStr extraction_method)] ''powerpoint''"

text \<open>One conversion attempt: the variable \<open>content\<close> before it and the outcome of the
  library call give \<open>content\<close> after it, and whether the attempt returns.\<close>

definition attempt :: "string \<Rightarrow> exn + string \<Rightarrow> string \<times> bool" where
  "attempt content r = (case r of Inl e \<Rightarrow> (content, False) | Inr c \<Rightarrow> (c, non_blank c))"

text \<open>The three conversion methods in their order, then the last check.\<close>

definition powerpoint_convert ::
  "env \<Rightarrow> agent_state \<Rightarrow> string \<Rightarrow> string \<Rightarrow> string \<Rightarrow> (exn + agent_state) \<times> event list" where
  "powerpoint_convert env s fp pandoc_path file_extension =
     (let fmt = (if file_extension = ''.pptx'' then ''pptx'' else ''ppt'');
          (content1, done1) = attempt [] (convert_file env fp (Some fmt))
      in if done1 then
           (Inr (powerpoint_state s fp content1 ''direct_conversion''), [PandocConvert fp (Some fmt)])
         else
           (let (content2, done2) = attempt content1 (pandoc_subprocess env pandoc_path fp fmt)
            in if done2 then
                 (Inr (powerpoint_state s fp content2 ''subprocess_conversion''),
                  [PandocConvert fp (Some fmt), PandocSubprocess pandoc_path fp fmt])
               else
                 (let (content3, done3) = attempt content2 (convert_file env fp None);
                      t = [PandocConvert fp (Some fmt), PandocSubprocess pandoc_path fp fmt,
                           PandocConvert fp None]
                  in if done3 then (Inr (powerpoint_state s fp content3 ''auto_detection''), t)
                     else if content3 = [] \<or> length (str_strip content3) = 0 then
                       (Inl (Exn ValueError
                          (''Failed to extract content from PowerPoint file: '' @ fp @ ''. '' @
                           ''The file may be empty, corrupted, or not a valid PowerPoint file.'')), t)
                     else (Inr (powerpoint_state s fp content3 ''fallback''), t))))"

text \<open>The handler of the outer \<open>try\<close>.\<close>

definition powerpoint_error :: "string \<Rightarrow> exn \<Rightarrow> exn" where
  "powerpoint_error fp e =
     (let error_msg = exn_str e in
      if str_contains ''No pandoc was found'' error_msg \<or> str_contains ''Pandoc is required'' error_msg
      then Exn ValueError
        ''Pandoc is required for PowerPoint processing but was not found on the system. Please install Pandoc from https://pandoc.org/installing.html''
      else if str_contains ''pptx'' (str_lower error_msg) \<or> str_contains ''powerpoint'' (str_lower error_msg)
      then Exn ValueError (''Error processing PowerPoint file: '' @ error_msg)
      else Exn ValueError (''Error processing PowerPoint file '' @ fp @ '': '' @ error_msg))"

definition process_powerpoint :: "env \<Rightarrow> agent_state \<Rightarrow> string \<Rightarrow> (exn + agent_state) \<times> event list" where
  "process_powerpoint env s fp =
     (let (r, t) =
        (if \<not> path_exists env fp then
           (Inl (Exn ValueError (''PowerPoint file not found: '' @ fp)), [])
         else
           (case getsize env fp of
              Inl e \<Rightarrow> (Inl e, [])
            | Inr n \<Rightarrow>
                if n = 0 then (Inl (Exn ValueError (''PowerPoint file is empty: '' @ fp)), [])
                else
                  (case locate_pandoc env of
                     (Inl e, t1) \<Rightarrow> (Inl e, t1)
                   | (Inr pandoc_path, t1) \<Rightarrow>
                       (let file_extension = str_lower (snd (splitext env fp));
                            (r2, t2) = powerpoint_convert env s fp pandoc_path file_extension
                        in (case r2 of
                              Inl e \<Rightarrow>
                                (Inl (Exn RuntimeError
                                   (''Error processing PowerPoint file '' @ [apostrophe] @ basename env fp @
                                    [apostrophe] @ '': '' @ exn_str e @
                                    ''. Please ensure Pandoc is correctly installed and the file is not corrupted.'')),
                                 t1 @ t2)
                            | Inr s' \<Rightarrow> (Inr s', t1 @ t2))))))
      in ((case r of Inl e \<Rightarrow> Inl (powerpoint_error fp e) | Inr s' \<Rightarrow> Inr s'),
          ExtractorCall PowerPoint fp # t))"

section \<open>processors.py: \<open>process_document\<close>\<close>

text \<open>The body of the \<open>try\<close>: the state returned or the exception that reaches the handler.\<close>

definition process_document_try :: "env \<Rightarrow> agent_state \<Rightarrow> (exn + agent_state) \<times> event list" where
  "process_document_try env s =
     (let content = get_str (pre_processed_content s) in
      if content \<noteq> [] then
        (Inr (single_document s content
                [(''source'', MStr ''pre_processed''), (''file_type'', MStr ''text'')] ''text''), [])
      else
        (let fp = get_str (file_path s) in
         if fp = [] then
           (Inl (Exn ValueError ''No file path or pre-processed content provided''), [])
         else
           (let file_ext = str_lower (snd (splitext env fp)) in
            if file_ext \<in> set [''.xlsx'', ''.xls''] then process_excel env s fp file_ext
            else if file_ext \<in> set [''.docx''] then process_docx env s fp
            else if file_ext \<in> set [''.doc''] then process_doc env s fp
            else if file_ext = ''.pdf'' then process_pdf env s fp
            else if file_ext = ''.txt'' then process_text env s fp
            else if file_ext \<in> set [''.ppt'', ''.pptx''] then process_powerpoint env s fp
            else (Inl (Exn ValueError (''Unsupported file type: '' @ file_ext)), []))))"

definition process_document :: "env \<Rightarrow> agent_state \<Rightarrow> agent_state \<times> event list" where
  "process_document env s =
     (case process_document_try env s of
        (Inr s', t) \<Rightarrow> (s', t)
      | (Inl e, t) \<Rightarrow> (s\<lparr>error := Some (''Error processing document: '' @ exn_str e)\<rparr>, t))"

section \<open>agent.py: \<open>answer_question\<close>\<close>

text \<open>The loop over the documents: the content, and the file type, which is any value a
  document's metadata holds under \<open>file_type\<close>.\<close>

definition documents_content :: "document list \<Rightarrow> string" where
  "documents_content docs = concat (map (\<lambda>doc. page_content doc @ [nl, nl]) docs)"

fun documents_file_type :: "meta_val \<Rightarrow> document list \<Rightarrow> meta_val" where
  "documents_file_type file_type [] = file_type"
| "documents_file_type file_type (doc # docs) =
     documents_file_type
       (if (case file_type of MStr ft \<Rightarrow> ft = [] \<or> ft = ''unknown'' | MInt n \<Rightarrow> n = 0)
        then (case map_of (doc_metadata doc) ''file_type'' of None \<Rightarrow> file_type | Some v \<Rightarrow> v)
        else file_type)
       docs"

definition raw_content_phrases :: "string list" where
  "raw_content_phrases =
     [''simply return the raw content of this document without any analysis or summary.'',
      ''raw content'', ''show content'', ''extract content'']"

text \<open>The description of the file type that the system prompt is built from; the test
  \<open>"excel" in file_type\<close> raises on a value that is not a string.\<close>

definition file_type_desc :: "meta_val \<Rightarrow> exn + string" where
  "file_type_desc file_type =
     (case file_type of
        MInt n \<Rightarrow> Inl (Exn TypeError (''argument of type '' @ [apostrophe] @ ''int'' @ [apostrophe] @ '' is not iterable''))
      | MStr ft \<Rightarrow>
          Inr (if str_contains ''excel'' ft then ''Excel spreadsheet''
               else if str_contains ''word'' ft then ''Word document''
               else if str_contains ''pdf'' ft then ''PDF document''
               else if str_contains ''text'' ft then ''text file''
               else if str_contains ''powerpoint'' ft then ''PowerPoint presentation''
               else ''document''))"

text \<open>The handler of \<open>answer_question\<close>.\<close>

definition answer_error :: "agent_state \<Rightarrow> exn \<Rightarrow> agent_state" where
  "answer_error s e =
     (let error_message = exn_str e in
      if str_contains ''openpyxl'' (str_lower error_message) then
        s\<lparr>answer := Some
          ''I encountered an error while processing your Excel file. The server is missing the 'openpyxl' package which is required for Excel support. Please contact the administrator to install this package by running: pip install openpyxl''\<rparr>
      else if str_contains ''xlrd'' (str_lower error_message) then
        s\<lparr>answer := Some
          ''I encountered an error while processing your Excel file. The server is missing packages required for Excel support. Please contact the administrator to install the necessary packages by running: pip install openpyxl xlrd''\<rparr>
      else if str_contains ''excel'' (str_lower error_message) then
        s\<lparr>answer := Some
          (''I encountered an error while processing your Excel file. Please make sure your Excel file is not password-protected or corrupted. The specific error was: '' @ error_message)\<rparr>
      else if str_contains ''pandoc'' (str_lower error_message) then
        s\<lparr>answer := Some
          ''I encountered an error while processing your PowerPoint file. The server is missing Pandoc which is required for PowerPoint support. Pandoc is not a Python package but a separate program that needs to be installed on the system. Please ask the administrator to install Pandoc from https://pandoc.org/installing.html''\<rparr>
      else if str_contains ''powerpoint'' (str_lower error_message) then
        s\<lparr>answer := Some
          (''I encountered an error while processing your PowerPoint file. Please make sure your PowerPoint file is not password-protected or corrupted. The specific error was: '' @ error_message)\<rparr>
      else
        s\<lparr>answer := Some
          (''I apologize, but I encountered an error while processing your question: '' @ error_message)\<rparr>)"

definition no_documents_answer :: string where
  "no_documents_answer =
     ''I don't have any document content to analyze. Please upload a document first.''"

definition empty_document_answer :: string where
  "empty_document_answer =
     ''The document appears to be empty or contains no extractable text content. Please try uploading a different document format or check if the document contains actual text content that can be extracted.''"

definition no_api_key_answer :: string where
  "no_api_key_answer =
     ''API key not configured. Please set the GROQ_API_KEY environment variable.''"

definition answer_question :: "env \<Rightarrow> agent_state \<Rightarrow> agent_state \<times> event list" where
  "answer_question env s =
     (let docs = (case documents s of None \<Rightarrow> [] | Some ds \<Rightarrow> ds) in
      if docs = [] then (s\<lparr>answer := Some no_documents_answer\<rparr>, [])
      else
        (let content = documents_content docs;
             file_type = documents_file_type (MStr ''unknown'') docs
         in if str_strip content = [] then (s\<lparr>answer := Some empty_document_answer\<rparr>, [])
            else
              (case chat_groq env (getenv env ''GROQ_API_KEY'') of
                 Some e \<Rightarrow> (answer_error s e, [ChatGroqInit])
               | None \<Rightarrow>
                   if get_str (getenv env ''GROQ_API_KEY'') = [] then
                     (s\<lparr>answer := Some no_api_key_answer\<rparr>, [ChatGroqInit])
                   else if str_strip (str_lower (get_str (question s))) \<in> set raw_content_phrases then
                     (s\<lparr>answer := Some (if length content > 8000 then take 8000 content else content)\<rparr>,
                      [ChatGroqInit])
                   else
                     (case file_type_desc file_type of
                        Inl e \<Rightarrow> (answer_error s e, [ChatGroqInit])
                      | Inr desc \<Rightarrow>
                          (let content_for_context =
                             (if length content > 25000 then take 25000 content else content)
                           in case question s of
                                None \<Rightarrow>
                                  (answer_error s
                                     (Exn KeyError ([apostrophe] @ ''question'' @ [apostrophe])),
                                   [ChatGroqInit])
                              | Some q \<Rightarrow>
                                  (case llm_invoke env desc content_for_context q of
                                     Inl e \<Rightarrow>
                                       (answer_error s e,
                                        [ChatGroqInit, LLMInvoke desc content_for_context q])
                                   | Inr response \<Rightarrow>
                                       (s\<lparr>answer := Some response\<rparr>,
                                        [ChatGroqInit, LLMInvoke desc content_for_context q])))))))"

section \<open>agent.py: the graph and \<open>DocumentQAAgent.run\<close>\<close>

text \<open>The compiled graph of \<open>build_qa_graph\<close>: entry point \<open>process_document\<close>, then the
  edge to \<open>answer_question\<close>, then the end.\<close>

definition graph_invoke :: "env \<Rightarrow> agent_state \<Rightarrow> agent_state \<times> event list" where
  "graph_invoke env s =
     (let (s1, t1) = process_document env s;
          (s2, t2) = answer_question env s1
      in (s2, NodeRun ''process_document'' # t1 @ NodeRun ''answer_question'' # t2))"

definition initial_state :: "string \<Rightarrow> agent_state" where
  "initial_state q =
     \<lparr>file_path = None, pre_processed_content = None, question = Some q, documents = None,
      metadata = None, answer = None, error = None\<rparr>"

definition too_short_answer :: string where
  "too_short_answer =
     ''The provided document content is too short or empty. Please upload a valid document.''"

text \<open>The \<open>try\<close> of \<open>run\<close>: the graph, then the reading of its result.\<close>

definition run_graph :: "env \<Rightarrow> agent_state \<Rightarrow> string \<times> event list" where
  "run_graph env s =
     (let (result, t) = graph_invoke env s in
      case error result of
        Some e \<Rightarrow> (''Error processing document: '' @ e, t)
      | None \<Rightarrow>
          (if get_str (answer result) = [] then
             (''No answer could be generated. Please try rephrasing your question or upload a different document.'', t)
           else (get_str (answer result), t)))"

definition run :: "env \<Rightarrow> string \<Rightarrow> string option \<Rightarrow> string option \<Rightarrow> string \<times> event list" where
  "run env q fp content =
     (if get_str fp = [] \<and> get_str content = [] then
        (''No document provided. Please provide either a file path or pre-processed content.'', [])
      else if get_str content \<noteq> [] then
        (if length (get_str content) < 10 then (too_short_answer, [])
         else run_graph env ((initial_state q)\<lparr>pre_processed_content := content\<rparr>))
      else if get_str fp \<noteq> [] then
        (if \<not> path_exists env (get_str fp) then
           (''File not found: '' @ get_str fp @ ''. Please upload a valid document.'', [])
         else run_graph env ((initial_state q)\<lparr>file_path := fp\<rparr>))
      else run_graph env (initial_state q))"

section \<open>A sample environment\<close>

text \<open>\<open>posixpath.splitext\<close>: the extension starts at the last dot of the last path
  component, unless only dots stand before it there.\<close>

definition posix_splitext :: "string \<Rightarrow> string \<times> string" where
  "posix_splitext p =
     (let name = rev (takeWhile (\<lambda>c. c \<noteq> CHR ''/'') (rev p));
          ext = rev (takeWhile (\<lambda>c. c \<noteq> CHR ''.'') (rev name));
          stem = take (length name - length ext - 1) name
      in if CHR ''.'' \<in> set name \<and> list_ex (\<lambda>c. c \<noteq> CHR ''.'') stem
         then (take (length p - length ext - 1) p, CHR ''.'' # ext)
         else (p, []))"

text \<open>What the construction of \<open>ChatGroq\<close> raises when there is no key: the error of the
  Groq client.\<close>

definition groq_key_error :: exn where
  "groq_key_error =
     Exn OtherError
       ''The api_key client option must be set either by passing api_key to the client or by setting the GROQ_API_KEY environment variable''"

definition missing_file :: exn where
  "missing_file = Exn OSError ''[Errno 2] No such file or directory''"

text \<open>
  A Linux machine without pandoc, with an API key, and with these files:
  \<^item> \<open>notes.txt\<close> holds one line of text, \<open>blank.txt\<close> is empty;
  \<^item> \<open>book.xlsx\<close>: the openpyxl engine raises \<open>ImportError\<close> (pandas finds the installed
    openpyxl too old);
  \<^item> \<open>old.xls\<close>: the openpyxl engine fails on the format, xlrd reads one sheet;
  \<^item> \<open>scan.pdf\<close> and \<open>void.pdf\<close> have two pages without text; the converter reads
    \<open>scan.pdf\<close> and fails on \<open>void.pdf\<close>.
  The client of the language model is built when there is a key and raises when there
  is none; the model answers every call with the same sentence.
\<close>

definition sample_env :: env where
  "sample_env =
     \<lparr>splitext = posix_splitext,
      basename = (\<lambda>p. rev (takeWhile (\<lambda>c. c \<noteq> CHR ''/'') (rev p))),
      path_join = (\<lambda>ps. concat (map (\<lambda>p. p @ ''/'') (butlast ps)) @ last ps),
      expanduser = (\<lambda>p. p),
      path_exists = (\<lambda>p. p \<in> set [''notes.txt'', ''blank.txt'', ''book.xlsx'', ''old.xls'',
                                      ''scan.pdf'', ''void.pdf'', ''bundle.zip'']),
      getsize = (\<lambda>p. Inr 100),
      getenv = (\<lambda>k. if k = ''GROQ_API_KEY'' then Some ''gsk_sample'' else None),
      platform_system = ''Linux'',
      which = (\<lambda>p. None),
      openpyxl_installed = True,
      read_excel = (\<lambda>eng p.
        if p = ''book.xlsx'' \<and> eng = Openpyxl then
          Inl (Exn ImportError ''Pandas requires version 3.1.0 or newer of openpyxl'')
        else if p = ''old.xls'' \<and> eng = Openpyxl then
          Inl (Exn OtherError ''File is not a zip file'')
        else if p = ''old.xls'' \<and> eng = Xlrd then Inr [(''Sheet1'', ''   total'' @ [nl] @ ''0     42'')]
        else Inl missing_file),
      docx2txt_process = (\<lambda>p. Inl missing_file),
      convert_file = (\<lambda>p fmt.
        if p = ''scan.pdf'' \<and> fmt = None then Inr (''Invoice  total :  42 .'' @ [nl])
        else Inl (Exn OSError ''No pandoc was found'')),
      get_pandoc_path = Inl (Exn OSError ''No pandoc was found''),
      pandoc_subprocess = (\<lambda>pandoc p fmt. Inl missing_file),
      pdf_reader = (\<lambda>p.
        if p = ''scan.pdf'' \<or> p = ''void.pdf'' then Inr [Inr [], Inr ('' '' @ [nl])]
        else Inl missing_file),
      read_text_file = (\<lambda>p.
        if p = ''notes.txt'' then Inr ''Revenue: $42,000''
        else if p = ''blank.txt'' then Inr []
        else Inl missing_file),
      chat_groq = (\<lambda>key. case key of None \<Rightarrow> Some groq_key_error | Some k \<Rightarrow> None),
      llm_invoke = (\<lambda>desc context q. Inr ''The revenue is $42,000.'')\<rparr>"

text \<open>Sample inputs: a document without metadata, and the state that reaches
  \<open>answer_question\<close> with a question and a list of documents.\<close>

definition plain_document :: "string \<Rightarrow> document" where
  "plain_document text = \<lparr>page_content = text, doc_metadata = []\<rparr>"

definition state_with_documents :: "string \<Rightarrow> document list \<Rightarrow> agent_state" where
  "state_with_documents q docs = (initial_state q)\<lparr>documents := Some docs\<rparr>"

text \<open>The sample machine with \<open>GROQ_API_KEY\<close> unset: the construction of the client
  raises.\<close>

definition keyless_env :: env where
  "keyless_env = sample_env\<lparr>getenv := (\<lambda>k. None)\<rparr>"

text \<open>The documents that \<open>pdf_state\<close> stores: each text cleaned, the metadata kept.\<close>

definition pdf_cleaned :: "document list \<Rightarrow> document list" where
  "pdf_cleaned docs =
     map (\<lambda>d. \<lparr>page_content = pdf_clean (page_content d), doc_metadata = doc_metadata d\<rparr>) docs"

text \<open>The state that \<open>run\<close> builds for a question and a file.\<close>

definition state_with_file :: "string \<Rightarrow> string \<Rightarrow> agent_state" where
  "state_with_file q fp = (initial_state q)\<lparr>file_path := Some fp\<rparr>"

section \<open>Facts about the string functions\<close>

lemma is_space_nl: "is_space nl"
  by (simp add: is_space_def nl_def)

lemma dropWhile_all: "(\<forall>x \<in> set (dropWhile P xs). P x) \<longleftrightarrow> (\<forall>x \<in> set xs. P x)"
  by (induction xs) auto

lemma str_strip_empty_iff: "str_strip s = [] \<longleftrightarrow> (\<forall>c \<in> set s. is_space c)"
  by (simp add: str_strip_def dropWhile_all)

lemma non_blank_iff: "non_blank s \<longleftrightarrow> (\<exists>c \<in> set s. \<not> is_space c)"
  by (auto simp: non_blank_def str_strip_empty_iff)

lemma split_scan_words: "x \<in> set (split_scan w s) \<Longrightarrow> x \<noteq> []"
  by (induction w s rule: split_scan.induct) (auto split: if_splits)

lemma split_scan_nonempty: "w \<noteq> [] \<or> (\<exists>c \<in> set s. \<not> is_space c) \<Longrightarrow> split_scan w s \<noteq> []"
  by (induction w s rule: split_scan.induct) (auto split: if_splits)

lemma join_space_nonempty: "ws \<noteq> [] \<Longrightarrow> hd ws \<noteq> [] \<Longrightarrow> join_space ws \<noteq> []"
  by (induction ws rule: join_space.induct) auto

lemma replace_space_before_nonempty: "s \<noteq> [] \<Longrightarrow> replace_space_before p s \<noteq> []"
  by (induction p s rule: replace_space_before.induct) auto

text \<open>The clean-up of a PDF text that has a character other than white space leaves
  a text that is not empty.\<close>

lemma pdf_clean_nonempty:
  assumes "non_blank text"
  shows "pdf_clean text \<noteq> []"
proof -
  have ne: "str_split text \<noteq> []"
    using assms by (simp add: str_split_def split_scan_nonempty non_blank_iff)
  then have "hd (str_split text) \<in> set (str_split text)" by simp
  then have "hd (str_split text) \<noteq> []"
    unfolding str_split_def by (rule split_scan_words)
  with ne have "join_space (str_split text) \<noteq> []"
    by (rule join_space_nonempty)
  then show ?thesis
    by (simp add: pdf_clean_def replace_space_before_nonempty)
qed

text \<open>The content that \<open>answer_question\<close> builds is blank exactly when every block text
  is: the separators are white space.\<close>

lemma documents_content_blank:
  "str_strip (documents_content docs) = [] \<longleftrightarrow>
   (\<forall>c \<in> set (concat (map page_content docs)). is_space c)"
  by (auto simp: str_strip_empty_iff documents_content_def is_space_nl)

section \<open>The answer generator\<close>

text \<open>
  C8. For every state with a block list that is not empty and whose concatenated text
  is empty or is white space only, \<open>answer_question\<close> returns the state with the fixed
  message for an empty document as its answer, and it does nothing to the outside: the
  language model is neither built nor called.
\<close>

theorem blank_content_answer:
  assumes "documents s = Some docs" and "docs \<noteq> []"
    and "\<forall>c \<in> set (concat (map page_content docs)). is_space c"
  shows "answer_question env s = (s\<lparr>answer := Some empty_document_answer\<rparr>, [])"
proof -
  have "str_strip (documents_content docs) = []"
    using assms(3) by (simp only: documents_content_blank)
  with assms(1,2) show ?thesis
    by (simp add: answer_question_def)
qed

theorem blank_content_answer_witness:
  "answer_question sample_env
     (state_with_documents ''What is the revenue?'' [plain_document ('' '' @ [nl]), plain_document []]) =
   ((state_with_documents ''What is the revenue?'' [plain_document ('' '' @ [nl]), plain_document []])
      \<lparr>answer := Some empty_document_answer\<rparr>, [])"
proof -
  let ?docs = "[plain_document ('' '' @ [nl]), plain_document []]"
  have h1: "documents (state_with_documents ''What is the revenue?'' ?docs) = Some ?docs"
    by (simp add: state_with_documents_def)
  have h2: "?docs \<noteq> []" by simp
  have h3: "\<forall>c \<in> set (concat (map page_content ?docs)). is_space c"
    by (simp add: plain_document_def is_space_def nl_def)
  show ?thesis by (rule blank_content_answer [OF h1 h2 h3])
qed

text \<open>What \<open>answer_question\<close> does to the outside is one of three things: nothing, the
  construction of the client, or the construction and one call whose context is the
  first 25000 characters of the content.\<close>

lemma answer_question_trace:
  "snd (answer_question env s) = [] \<or> snd (answer_question env s) = [ChatGroqInit] \<or>
   (\<exists>desc q. snd (answer_question env s) =
      [ChatGroqInit,
       LLMInvoke desc
         (take 25000 (documents_content (case documents s of None \<Rightarrow> [] | Some ds \<Rightarrow> ds))) q])"
  by (auto simp: answer_question_def Let_def split: option.splits sum.splits)

text \<open>
  C9. For every state that reaches the call of the language model in
  \<open>answer_question\<close>, the document content passed to the call has at most 25000
  characters: it is the first 25000 characters of the content, so a longer content
  is cut there and a shorter one is passed whole.
\<close>

theorem llm_context_bounded:
  assumes "LLMInvoke desc context q \<in> set (snd (answer_question env s))"
  shows "length context \<le> 25000 \<and>
         context = take 25000 (documents_content (case documents s of None \<Rightarrow> [] | Some ds \<Rightarrow> ds))"
  using assms answer_question_trace [of env s] by auto

lemma lower_strip_question: "str_strip (str_lower ''What is it?'') = ''what is it?''"
  by code_simp

text \<open>A content of 25003 characters reaches the model as 25000.\<close>

lemma long_content_trace:
  "snd (answer_question sample_env
          (state_with_documents ''What is it?'' [plain_document (replicate 25001 (CHR ''a''))])) =
   [ChatGroqInit, LLMInvoke ''document'' (replicate 25000 (CHR ''a'')) ''What is it?'']"
proof -
  have blank: "str_strip (documents_content [plain_document (replicate 25001 (CHR ''a''))]) \<noteq> []"
    by (simp add: str_strip_empty_iff documents_content_def plain_document_def is_space_def)
  show ?thesis
    using blank
    by (simp add: answer_question_def state_with_documents_def initial_state_def sample_env_def
        lower_strip_question raw_content_phrases_def file_type_desc_def get_str_def
        documents_content_def plain_document_def)
qed

theorem llm_context_bounded_witness:
  "LLMInvoke ''document'' (replicate 25000 (CHR ''a'')) ''What is it?'' \<in>
     set (snd (answer_question sample_env
       (state_with_documents ''What is it?'' [plain_document (replicate 25001 (CHR ''a''))]))) \<and>
   length (replicate 25000 (CHR ''a'')) \<le> 25000 \<and>
   replicate 25000 (CHR ''a'') =
     take 25000 (documents_content
       (case documents
          (state_with_documents ''What is it?'' [plain_document (replicate 25001 (CHR ''a''))]) of
        None \<Rightarrow> [] | Some ds \<Rightarrow> ds))"
proof -
  have h: "LLMInvoke ''document'' (replicate 25000 (CHR ''a'')) ''What is it?'' \<in>
     set (snd (answer_question sample_env
       (state_with_documents ''What is it?'' [plain_document (replicate 25001 (CHR ''a''))])))"
    by (simp add: long_content_trace)
  from llm_context_bounded [OF h] h show ?thesis by blast
qed

text \<open>With a raw-content question, \<open>answer_question\<close> at most builds the client; where the
  content is not blank, the client is built and the key is set, it returns the content.\<close>

lemma raw_no_llm:
  assumes "str_strip (str_lower (get_str (question s))) \<in> set raw_content_phrases"
  shows "snd (answer_question env s) = [] \<or> snd (answer_question env s) = [ChatGroqInit]"
  using assms by (auto simp: answer_question_def Let_def split: option.splits)

lemma raw_answer:
  assumes "str_strip (str_lower (get_str (question s))) \<in> set raw_content_phrases"
    and "documents s = Some docs" and "docs \<noteq> []" and "str_strip (documents_content docs) \<noteq> []"
    and "chat_groq env (getenv env ''GROQ_API_KEY'') = None"
    and "get_str (getenv env ''GROQ_API_KEY'') \<noteq> []"
  shows "answer_question env s =
              (s\<lparr>answer := Some (if 8000 < length (documents_content docs)
                                   then take 8000 (documents_content docs)
                                   else documents_content docs)\<rparr>,
               [ChatGroqInit])"
  using assms by (simp add: answer_question_def)

text \<open>
  For every state whose question, lowercased and trimmed, is one of the raw-content
  phrases, \<open>answer_question\<close> never calls the language model. Where the state has
  documents whose concatenated content is not blank, the construction of the client
  does not raise and \<open>GROQ_API_KEY\<close> is set, the answer is the concatenated content, and
  exactly its first 8000 characters when it is longer.
\<close>

lemma raw_content_short_circuit:
  assumes "str_strip (str_lower (get_str (question s))) \<in> set raw_content_phrases"
  shows "(\<forall>desc context q. LLMInvoke desc context q \<notin> set (snd (answer_question env s))) \<and>
         (\<forall>docs. documents s = Some docs \<and> docs \<noteq> [] \<and> str_strip (documents_content docs) \<noteq> [] \<and>
            chat_groq env (getenv env ''GROQ_API_KEY'') = None \<and>
            get_str (getenv env ''GROQ_API_KEY'') \<noteq> [] \<longrightarrow>
            answer_question env s =
              (s\<lparr>answer := Some (if 8000 < length (documents_content docs)
                                   then take 8000 (documents_content docs)
                                   else documents_content docs)\<rparr>,
               [ChatGroqInit]))"
proof (intro conjI allI impI)
  fix desc ctx q
  show "LLMInvoke desc ctx q \<notin> set (snd (answer_question env s))"
    using raw_no_llm [OF assms, of env] by auto
next
  fix docs
  assume h: "documents s = Some docs \<and> docs \<noteq> [] \<and> str_strip (documents_content docs) \<noteq> [] \<and>
            chat_groq env (getenv env ''GROQ_API_KEY'') = None \<and>
            get_str (getenv env ''GROQ_API_KEY'') \<noteq> []"
  show "answer_question env s =
              (s\<lparr>answer := Some (if 8000 < length (documents_content docs)
                                   then take 8000 (documents_content docs)
                                   else documents_content docs)\<rparr>,
               [ChatGroqInit])"
  proof (rule raw_answer [OF assms])
    show "documents s = Some docs" using h by simp
    show "docs \<noteq> []" using h by simp
    show "str_strip (documents_content docs) \<noteq> []" using h by simp
    show "chat_groq env (getenv env ''GROQ_API_KEY'') = None" using h by simp
    show "get_str (getenv env ''GROQ_API_KEY'') \<noteq> []" using h by simp
  qed
qed

lemma lower_strip_raw: "str_strip (str_lower '' Raw Content '') = ''raw content''"
  by code_simp

lemma raw_phrase: "str_strip (str_lower '' Raw Content '') \<in> set raw_content_phrases"
  by (simp add: lower_strip_raw raw_content_phrases_def)

lemma long_a_not_blank: "str_strip (documents_content [plain_document (replicate 8001 (CHR ''a''))]) \<noteq> []"
  by (simp add: str_strip_empty_iff documents_content_def plain_document_def is_space_def)

lemma long_a_cut:
  "(if 8000 < length (documents_content [plain_document (replicate 8001 (CHR ''a''))])
    then take 8000 (documents_content [plain_document (replicate 8001 (CHR ''a''))])
    else documents_content [plain_document (replicate 8001 (CHR ''a''))]) = replicate 8000 (CHR ''a'')"
  by (simp add: documents_content_def plain_document_def)

text \<open>A content of 8003 characters comes back as its first 8000.\<close>

lemma raw_content_long_sample:
  "answer_question sample_env
     (state_with_documents '' Raw Content '' [plain_document (replicate 8001 (CHR ''a''))]) =
   ((state_with_documents '' Raw Content '' [plain_document (replicate 8001 (CHR ''a''))])
      \<lparr>answer := Some (replicate 8000 (CHR ''a''))\<rparr>, [ChatGroqInit]) \<and>
   LLMInvoke ''document'' (replicate 8000 (CHR ''a'')) '' Raw Content '' \<notin>
     set (snd (answer_question sample_env
       (state_with_documents '' Raw Content '' [plain_document (replicate 8001 (CHR ''a''))])))"
proof -
  let ?docs = "[plain_document (replicate 8001 (CHR ''a''))]"
  let ?s = "state_with_documents '' Raw Content '' ?docs"
  have q: "str_strip (str_lower (get_str (question ?s))) \<in> set raw_content_phrases"
    by (simp add: state_with_documents_def initial_state_def get_str_def raw_phrase)
  have d: "documents ?s = Some ?docs \<and> ?docs \<noteq> [] \<and> str_strip (documents_content ?docs) \<noteq> [] \<and>
      chat_groq sample_env (getenv sample_env ''GROQ_API_KEY'') = None \<and>
      get_str (getenv sample_env ''GROQ_API_KEY'') \<noteq> []"
    by (simp add: state_with_documents_def long_a_not_blank sample_env_def get_str_def)
  note t = raw_content_short_circuit [OF q, of sample_env]
  from t have "answer_question sample_env ?s =
      (?s\<lparr>answer := Some (if 8000 < length (documents_content ?docs)
                                   then take 8000 (documents_content ?docs)
                                   else documents_content ?docs)\<rparr>, [ChatGroqInit])"
    using d by blast
  then have a: "answer_question sample_env ?s =
      (?s\<lparr>answer := Some (replicate 8000 (CHR ''a''))\<rparr>, [ChatGroqInit])"
    by (simp only: long_a_cut)
  from t have b: "LLMInvoke ''document'' (replicate 8000 (CHR ''a'')) '' Raw Content '' \<notin>
     set (snd (answer_question sample_env ?s))"
    by blast
  from a b show ?thesis by blast
qed

lemma lower_strip_raw_plain: "str_strip (str_lower ''raw content'') = ''raw content''"
  by code_simp

lemma revenue_not_blank:
  "str_strip (documents_content [plain_document ''Revenue: $42,000'']) \<noteq> []"
  by (simp add: str_strip_empty_iff documents_content_def plain_document_def is_space_def)

text \<open>The client is built, and the key tested, before the question is looked at: with
  a raw-content question and no key the answer is what the handler makes of the
  exception of the client, or the message about the key when the client did not raise.\<close>

lemma raw_content_key_guard:
  assumes "str_strip (str_lower (get_str (question s))) \<in> set raw_content_phrases"
    and "documents s = Some docs" and "docs \<noteq> []" and "str_strip (documents_content docs) \<noteq> []"
    and "get_str (getenv env ''GROQ_API_KEY'') = []"
  shows "answer_question env s =
           ((case chat_groq env (getenv env ''GROQ_API_KEY'') of
               Some e \<Rightarrow> answer_error s e
             | None \<Rightarrow> s\<lparr>answer := Some no_api_key_answer\<rparr>),
            [ChatGroqInit])"
  using assms by (simp add: answer_question_def split: option.splits)

lemma groq_key_error_patterns:
  "\<not> str_contains ''openpyxl'' (str_lower (exn_str groq_key_error))"
  "\<not> str_contains ''xlrd'' (str_lower (exn_str groq_key_error))"
  "\<not> str_contains ''excel'' (str_lower (exn_str groq_key_error))"
  "\<not> str_contains ''pandoc'' (str_lower (exn_str groq_key_error))"
  "\<not> str_contains ''powerpoint'' (str_lower (exn_str groq_key_error))"
  by code_simp+

lemma groq_key_error_answer:
  "answer_error s groq_key_error =
     s\<lparr>answer := Some (''I apologize, but I encountered an error while processing your question: '' @
                        exn_str groq_key_error)\<rparr>"
  by (simp only: answer_error_def Let_def groq_key_error_patterns if_False)

text \<open>
  C2. For a state whose question is a raw-content phrase the content is to come back
  without the language model, cut to its first 8000 characters when longer; the upload
  of \<open>api.py\<close> asks this question so as to get the raw content. With documents that hold
  text, the question \<open>raw content\<close> and \<open>GROQ_API_KEY\<close> unset, \<open>answer_question\<close> does
  not return the content: the construction of the client raises before the question is
  tested, and the answer is the apology of the handler.
\<close>

theorem raw_content_without_key:
  "str_strip (str_lower (get_str (question
      (state_with_documents ''raw content'' [plain_document ''Revenue: $42,000''])))) \<in> set raw_content_phrases \<and>
   answer_question keyless_env (state_with_documents ''raw content'' [plain_document ''Revenue: $42,000'']) =
     ((state_with_documents ''raw content'' [plain_document ''Revenue: $42,000''])
        \<lparr>answer := Some (''I apologize, but I encountered an error while processing your question: '' @
                           exn_str groq_key_error)\<rparr>,
      [ChatGroqInit]) \<and>
   ''I apologize, but I encountered an error while processing your question: '' @ exn_str groq_key_error \<noteq>
     documents_content [plain_document ''Revenue: $42,000'']"
proof (intro conjI)
  let ?s = "state_with_documents ''raw content'' [plain_document ''Revenue: $42,000'']"
  show q: "str_strip (str_lower (get_str (question ?s))) \<in> set raw_content_phrases"
    by (simp add: state_with_documents_def initial_state_def get_str_def lower_strip_raw_plain
        raw_content_phrases_def)
  have d: "documents ?s = Some [plain_document ''Revenue: $42,000'']"
    by (simp add: state_with_documents_def)
  have k: "get_str (getenv keyless_env ''GROQ_API_KEY'') = []"
    by (simp add: keyless_env_def get_str_def)
  have c: "chat_groq keyless_env (getenv keyless_env ''GROQ_API_KEY'') = Some groq_key_error"
    by (simp add: keyless_env_def sample_env_def)
  have n: "[plain_document ''Revenue: $42,000''] \<noteq> []" by simp
  show "answer_question keyless_env ?s =
     (?s\<lparr>answer := Some (''I apologize, but I encountered an error while processing your question: '' @
                           exn_str groq_key_error)\<rparr>,
      [ChatGroqInit])"
    using raw_content_key_guard [OF q d n revenue_not_blank k]
    by (simp add: c groq_key_error_answer)
  show "''I apologize, but I encountered an error while processing your question: '' @ exn_str groq_key_error \<noteq>
     documents_content [plain_document ''Revenue: $42,000'']"
    by (simp add: documents_content_def plain_document_def)
qed

section \<open>The extractors: what a successful extraction returns\<close>

lemma reraise_Inr: "reraise pre r = Inr x \<longleftrightarrow> r = Inr x"
  by (cases r) (simp_all add: reraise_def)

lemma reraise_Inl: "reraise pre r = Inl e \<longleftrightarrow> (\<exists>e'. r = Inl e' \<and> e = Exn ValueError (pre @ exn_str e'))"
  by (cases r) (auto simp: reraise_def)

lemma process_text_success:
  "fst (process_text env s fp) = Inr s' \<Longrightarrow>
   \<exists>text. s' = single_document s text [(''source'', MStr fp), (''file_type'', MStr ''text'')] ''text''"
  by (auto simp: process_text_def reraise_Inr split: sum.splits)

lemma process_docx_success:
  "fst (process_docx env s fp) = Inr s' \<Longrightarrow>
   \<exists>text. s' = single_document s text [(''source'', MStr fp), (''file_type'', MStr ''word'')] ''word''"
  by (auto simp: process_docx_def reraise_Inr split: sum.splits)

lemma process_doc_success:
  "fst (process_doc env s fp) = Inr s' \<Longrightarrow>
   \<exists>text. s' = single_document s text [(''source'', MStr fp), (''file_type'', MStr ''word'')] ''word''"
  by (auto simp: process_doc_def reraise_Inr split: sum.splits)

lemma process_excel_success:
  "fst (process_excel env s fp ext) = Inr s' \<Longrightarrow> \<exists>sheets. s' = excel_state s fp sheets"
  by (auto simp: process_excel_def reraise_Inr Let_def split: sum.splits if_splits)

lemma pdf_pages_non_blank:
  "pdf_pages fp i pages docs = (Inr docs', t) \<Longrightarrow> \<forall>d \<in> set docs. non_blank (page_content d) \<Longrightarrow>
   \<forall>d \<in> set docs'. non_blank (page_content d)"
proof (induction pages arbitrary: i docs t)
  case Nil
  then show ?case by simp
next
  case (Cons page pages)
  show ?case
  proof (cases page)
    case (Inl e)
    with Cons.prems show ?thesis by simp
  next
    case (Inr tx)
    let ?docs = "(if non_blank tx then
                docs @ [\<lparr>page_content = tx,
                          doc_metadata = [(''source'', MStr fp), (''file_type'', MStr ''pdf''),
                                          (''page'', MInt (int (i + 1)))]\<rparr>]
              else docs)"
    obtain r t' where rt: "pdf_pages fp (i + 1) pages ?docs = (r, t')"
      by (cases "pdf_pages fp (i + 1) pages ?docs")
    with Cons.prems(1) Inr have "r = Inr docs'" by (simp add: Let_def)
    with rt have "pdf_pages fp (i + 1) pages ?docs = (Inr docs', t')" by simp
    moreover have "\<forall>d \<in> set ?docs. non_blank (page_content d)"
      using Cons.prems(2) by simp
    ultimately show ?thesis by (rule Cons.IH)
  qed
qed

lemma pdf_fallback_non_blank: "\<forall>d \<in> set (fst (pdf_fallback env fp)). non_blank (page_content d)"
  by (auto simp: pdf_fallback_def split: sum.splits)

lemma process_pdf_success:
  assumes "fst (process_pdf env s fp) = Inr s'"
  shows "\<exists>n docs. s' = pdf_state s n docs \<and> docs \<noteq> [] \<and> (\<forall>d \<in> set docs. non_blank (page_content d))"
proof -
  from assms obtain pages where p: "pdf_reader env fp = Inr pages"
    by (cases "pdf_reader env fp") (simp_all add: process_pdf_def reraise_def)
  obtain r t1 where pp: "pdf_pages fp 0 pages [] = (r, t1)"
    by (cases "pdf_pages fp 0 pages []")
  from assms p pp obtain docs where r: "r = Inr docs"
    by (cases r) (simp_all add: process_pdf_def reraise_def)
  have nb: "\<forall>d \<in> set docs. non_blank (page_content d)"
    using pdf_pages_non_blank [of fp 0 pages "[]" docs t1] pp r by simp
  obtain docs2 t2 where f: "(if docs = [] then pdf_fallback env fp else (docs, [])) = (docs2, t2)"
    by (cases "if docs = [] then pdf_fallback env fp else (docs, [])")
  have nb2: "\<forall>d \<in> set docs2. non_blank (page_content d)"
  proof (cases "docs = []")
    case True
    with f have "docs2 = fst (pdf_fallback env fp)" by simp
    then show ?thesis using pdf_fallback_non_blank [of env fp] by simp
  next
    case False
    with f nb show ?thesis by simp
  qed
  from assms p pp r f have "docs2 \<noteq> [] \<and> s' = pdf_state s (length pages) docs2"
    by (simp add: process_pdf_def reraise_Inr split: if_splits)
  with nb2 show ?thesis by blast
qed

lemma attempt_done: "attempt c r = (c', True) \<Longrightarrow> c' \<noteq> []"
  by (auto simp: attempt_def non_blank_def split: sum.splits)

lemma powerpoint_convert_success:
  assumes "fst (powerpoint_convert env s fp pandoc ext) = Inr s'"
  shows "\<exists>content m. s' = powerpoint_state s fp content m \<and> content \<noteq> []"
proof -
  let ?fmt = "(if ext = ''.pptx'' then ''pptx'' else ''ppt'')"
  obtain c1 d1 where a1: "attempt [] (convert_file env fp (Some ?fmt)) = (c1, d1)"
    by (cases "attempt [] (convert_file env fp (Some ?fmt))")
  obtain c2 d2 where a2: "attempt c1 (pandoc_subprocess env pandoc fp ?fmt) = (c2, d2)"
    by (cases "attempt c1 (pandoc_subprocess env pandoc fp ?fmt)")
  obtain c3 d3 where a3: "attempt c2 (convert_file env fp None) = (c3, d3)"
    by (cases "attempt c2 (convert_file env fp None)")
  show ?thesis
  proof (cases d1)
    case True
    with a1 assms have "s' = powerpoint_state s fp c1 ''direct_conversion''"
      by (simp add: powerpoint_convert_def Let_def)
    moreover from a1 True have "c1 \<noteq> []" by (simp add: attempt_done)
    ultimately show ?thesis by blast
  next
    case n1: False
    show ?thesis
    proof (cases d2)
      case True
      with a1 a2 n1 assms have "s' = powerpoint_state s fp c2 ''subprocess_conversion''"
        by (simp add: powerpoint_convert_def Let_def)
      moreover from a2 True have "c2 \<noteq> []" by (simp add: attempt_done)
      ultimately show ?thesis by blast
    next
      case n2: False
      show ?thesis
      proof (cases d3)
        case True
        with a1 a2 a3 n1 n2 assms have "s' = powerpoint_state s fp c3 ''auto_detection''"
          by (simp add: powerpoint_convert_def Let_def)
        moreover from a3 True have "c3 \<noteq> []" by (simp add: attempt_done)
        ultimately show ?thesis by blast
      next
        case n3: False
        with a1 a2 a3 n1 n2 assms have "c3 \<noteq> [] \<and> s' = powerpoint_state s fp c3 ''fallback''"
          by (simp add: powerpoint_convert_def Let_def split: if_splits)
        then show ?thesis by blast
      qed
    qed
  qed
qed

lemma process_powerpoint_success:
  assumes "fst (process_powerpoint env s fp) = Inr s'"
  shows "\<exists>content m. s' = powerpoint_state s fp content m \<and> content \<noteq> []"
proof -
  from assms have ex: "path_exists env fp"
    by (auto simp: process_powerpoint_def split: if_splits)
  from assms ex obtain n where n: "getsize env fp = Inr n" "n \<noteq> 0"
    by (cases "getsize env fp") (auto simp: process_powerpoint_def split: if_splits)
  obtain r1 t1 where l: "locate_pandoc env = (r1, t1)"
    by (cases "locate_pandoc env")
  from assms ex n l obtain pandoc where p: "r1 = Inr pandoc"
    by (cases r1) (auto simp: process_powerpoint_def)
  obtain r2 t2 where c: "powerpoint_convert env s fp pandoc (str_lower (snd (splitext env fp))) = (r2, t2)"
    by (cases "powerpoint_convert env s fp pandoc (str_lower (snd (splitext env fp)))")
  from assms ex n l p c have "r2 = Inr s'"
    by (cases r2) (auto simp: process_powerpoint_def)
  with c have "fst (powerpoint_convert env s fp pandoc (str_lower (snd (splitext env fp)))) = Inr s'"
    by simp
  then show ?thesis by (rule powerpoint_convert_success)
qed

text \<open>A successful dispatch, by the branch taken.\<close>

lemma try_success_cases:
  assumes ok: "fst (process_document_try env s) = Inr s'"
    and fp: "fp = get_str (file_path s)"
    and ext: "ext = str_lower (snd (splitext env fp))"
  shows "(get_str (pre_processed_content s) \<noteq> [] \<and>
            s' = single_document s (get_str (pre_processed_content s))
                   [(''source'', MStr ''pre_processed''), (''file_type'', MStr ''text'')] ''text'') \<or>
         (get_str (pre_processed_content s) = [] \<and> ext \<in> set [''.xlsx'', ''.xls''] \<and>
            (\<exists>sheets. s' = excel_state s fp sheets)) \<or>
         (get_str (pre_processed_content s) = [] \<and> ext \<in> set [''.docx'', ''.doc'', ''.txt''] \<and>
            (\<exists>tx dm ft. s' = single_document s tx dm ft)) \<or>
         (get_str (pre_processed_content s) = [] \<and> ext = ''.pdf'' \<and>
            (\<exists>n docs. s' = pdf_state s n docs \<and> docs \<noteq> [] \<and>
               (\<forall>d \<in> set docs. non_blank (page_content d)))) \<or>
         (get_str (pre_processed_content s) = [] \<and> ext \<in> set [''.ppt'', ''.pptx''] \<and>
            (\<exists>content m. s' = powerpoint_state s fp content m \<and> content \<noteq> []))"
proof (cases "get_str (pre_processed_content s) \<noteq> []")
  case True
  with ok show ?thesis by (simp add: process_document_try_def)
next
  case False
  then have ppc: "get_str (pre_processed_content s) = []" by simp
  from ok ppc have fpne: "fp \<noteq> []"
    by (auto simp: process_document_try_def fp)
  consider (excel) "ext \<in> set [''.xlsx'', ''.xls'']"
    | (docx) "ext = ''.docx''" | (doc) "ext = ''.doc''" | (pdf) "ext = ''.pdf''"
    | (plain) "ext = ''.txt''" | (ppt) "ext \<in> set [''.ppt'', ''.pptx'']"
    | (other) "ext \<notin> set [''.xlsx'', ''.xls'', ''.docx'', ''.doc'', ''.pdf'', ''.txt'', ''.ppt'', ''.pptx'']"
    by auto
  then show ?thesis
  proof cases
    case excel
    with ok ppc fpne have "fst (process_excel env s fp ext) = Inr s'"
      by (simp add: process_document_try_def fp [symmetric] ext [symmetric])
    then have "\<exists>sheets. s' = excel_state s fp sheets" by (rule process_excel_success)
    with ppc excel show ?thesis by blast
  next
    case docx
    with ok ppc fpne have "fst (process_docx env s fp) = Inr s'"
      by (simp add: process_document_try_def fp [symmetric] ext [symmetric])
    then have "\<exists>tx dm ft. s' = single_document s tx dm ft"
      using process_docx_success by blast
    with ppc docx show ?thesis by simp
  next
    case doc
    with ok ppc fpne have "fst (process_doc env s fp) = Inr s'"
      by (simp add: process_document_try_def fp [symmetric] ext [symmetric])
    then have "\<exists>tx dm ft. s' = single_document s tx dm ft"
      using process_doc_success by blast
    with ppc doc show ?thesis by simp
  next
    case pdf
    with ok ppc fpne have "fst (process_pdf env s fp) = Inr s'"
      by (simp add: process_document_try_def fp [symmetric] ext [symmetric])
    then have "\<exists>n docs. s' = pdf_state s n docs \<and> docs \<noteq> [] \<and>
               (\<forall>d \<in> set docs. non_blank (page_content d))"
      by (rule process_pdf_success)
    with ppc pdf show ?thesis by simp
  next
    case plain
    with ok ppc fpne have "fst (process_text env s fp) = Inr s'"
      by (simp add: process_document_try_def fp [symmetric] ext [symmetric])
    then have "\<exists>tx dm ft. s' = single_document s tx dm ft"
      using process_text_success by blast
    with ppc plain show ?thesis by simp
  next
    case ppt
    with ok ppc fpne have "fst (process_powerpoint env s fp) = Inr s'"
      by (auto simp: process_document_try_def fp [symmetric] ext [symmetric])
    then have "\<exists>content m. s' = powerpoint_state s fp content m \<and> content \<noteq> []"
      by (rule process_powerpoint_success)
    with ppc ppt show ?thesis by blast
  next
    case other
    with ok ppc fpne have False
      by (simp add: process_document_try_def fp [symmetric] ext [symmetric])
    then show ?thesis ..
  qed
qed

lemma content_length_single: "content_length [\<lparr>page_content = tx, doc_metadata = dm\<rparr>] = int (length tx)"
  by (simp add: content_length_def)

lemma single_document_fields:
  "documents (single_document s tx dm ft) = Some [\<lparr>page_content = tx, doc_metadata = dm\<rparr>]"
  "\<exists>m. metadata (single_document s tx dm ft) = Some m \<and>
       map_of m ''content_length'' = Some (MInt (content_length [\<lparr>page_content = tx, doc_metadata = dm\<rparr>]))"
  "error (single_document s tx dm ft) = error s"
  by (simp_all add: single_document_def extracted_def content_length_single)

lemma excel_state_fields:
  "documents (excel_state s fp sheets) = Some (excel_documents fp sheets)"
  "\<exists>m. metadata (excel_state s fp sheets) = Some m \<and>
       map_of m ''content_length'' = Some (MInt (content_length (excel_documents fp sheets)))"
  "error (excel_state s fp sheets) = error s"
  by (simp_all add: excel_state_def extracted_def Let_def)

lemma excel_documents_nonempty: "d \<in> set (excel_documents fp sheets) \<Longrightarrow> page_content d \<noteq> []"
  by (auto simp: excel_documents_def)

lemma pdf_state_fields:
  "documents (pdf_state s n docs) = Some (pdf_cleaned docs)"
  "\<exists>m. metadata (pdf_state s n docs) = Some m \<and>
       map_of m ''content_length'' = Some (MInt (content_length (pdf_cleaned docs)))"
  "error (pdf_state s n docs) = error s"
  by (simp_all add: pdf_state_def extracted_def Let_def pdf_cleaned_def)

lemma pdf_cleaned_nonempty:
  "\<forall>d \<in> set docs. non_blank (page_content d) \<Longrightarrow> d \<in> set (pdf_cleaned docs) \<Longrightarrow> page_content d \<noteq> []"
  by (auto simp: pdf_cleaned_def pdf_clean_nonempty)

lemma pdf_cleaned_Nil: "pdf_cleaned docs = [] \<longleftrightarrow> docs = []"
  by (simp add: pdf_cleaned_def)

text \<open>The blocks and the metadata of a successful extraction, by the branch taken.\<close>

lemma extraction_blocks_basic:
  assumes ok: "fst (process_document_try env s) = Inr s'"
    and ext: "ext = str_lower (snd (splitext env (get_str (file_path s))))"
  shows "\<exists>docs m. documents s' = Some docs \<and> metadata s' = Some m \<and>
           map_of m ''content_length'' = Some (MInt (content_length docs)) \<and>
           (get_str (pre_processed_content s) \<noteq> [] \<or> ext \<in> set [''.pdf'', ''.ppt'', ''.pptx'']
              \<longrightarrow> docs \<noteq> [] \<and> (\<forall>d \<in> set docs. page_content d \<noteq> [])) \<and>
           (get_str (pre_processed_content s) = [] \<and> ext \<in> set [''.xlsx'', ''.xls'']
              \<longrightarrow> (\<forall>d \<in> set docs. page_content d \<noteq> [])) \<and>
           (get_str (pre_processed_content s) = [] \<and> ext \<in> set [''.docx'', ''.doc'', ''.txt'']
              \<longrightarrow> length docs = 1)"
proof -
  let ?fp = "get_str (file_path s)"
  note cases = try_success_cases [OF ok refl ext]
  from cases consider
      (pre) "get_str (pre_processed_content s) \<noteq> []"
        "s' = single_document s (get_str (pre_processed_content s))
                [(''source'', MStr ''pre_processed''), (''file_type'', MStr ''text'')] ''text''"
    | (excel) sheets where "get_str (pre_processed_content s) = []" "ext \<in> set [''.xlsx'', ''.xls'']"
        "s' = excel_state s ?fp sheets"
    | (single) tx dm ft where "get_str (pre_processed_content s) = []"
        "ext \<in> set [''.docx'', ''.doc'', ''.txt'']" "s' = single_document s tx dm ft"
    | (pdf) n docs where "get_str (pre_processed_content s) = []" "ext = ''.pdf''"
        "s' = pdf_state s n docs" "docs \<noteq> []" "\<forall>d \<in> set docs. non_blank (page_content d)"
    | (ppt) content m where "get_str (pre_processed_content s) = []" "ext \<in> set [''.ppt'', ''.pptx'']"
        "s' = powerpoint_state s ?fp content m" "content \<noteq> []"
    by blast
  then show ?thesis
  proof cases
    case pre
    from single_document_fields(2) obtain m where
      "metadata s' = Some m \<and> map_of m ''content_length'' =
         Some (MInt (content_length [\<lparr>page_content = get_str (pre_processed_content s),
            doc_metadata = [(''source'', MStr ''pre_processed''), (''file_type'', MStr ''text'')]\<rparr>]))"
      unfolding pre(2) by blast
    with pre show ?thesis
      by (intro exI [of _ "[\<lparr>page_content = get_str (pre_processed_content s),
            doc_metadata = [(''source'', MStr ''pre_processed''), (''file_type'', MStr ''text'')]\<rparr>]"]
          exI [of _ m]) (simp add: single_document_fields(1))
  next
    case excel
    from excel_state_fields(2) obtain m where
      "metadata s' = Some m \<and> map_of m ''content_length'' =
         Some (MInt (content_length (excel_documents ?fp sheets)))"
      unfolding excel(3) by blast
    with excel show ?thesis
      by (intro exI [of _ "excel_documents ?fp sheets"] exI [of _ m])
         (auto simp: excel_state_fields(1) excel_documents_nonempty)
  next
    case single
    from single_document_fields(2) obtain m where
      "metadata s' = Some m \<and> map_of m ''content_length'' =
         Some (MInt (content_length [\<lparr>page_content = tx, doc_metadata = dm\<rparr>]))"
      unfolding single(3) by blast
    with single show ?thesis
      by (intro exI [of _ "[\<lparr>page_content = tx, doc_metadata = dm\<rparr>]"] exI [of _ m])
         (auto simp: single_document_fields(1))
  next
    case pdf
    from pdf_state_fields(2) obtain m where
      "metadata s' = Some m \<and> map_of m ''content_length'' =
         Some (MInt (content_length (pdf_cleaned docs)))"
      unfolding pdf(3) by blast
    with pdf show ?thesis
      by (intro exI [of _ "pdf_cleaned docs"] exI [of _ m])
         (auto simp: pdf_state_fields(1) pdf_cleaned_Nil dest: pdf_cleaned_nonempty)
  next
    case ppt
    let ?dm = "[(''source'', MStr ?fp), (''file_type'', MStr ''powerpoint''),
        (''extraction_method'', MStr m)]"
    have s': "s' = single_document s content ?dm ''powerpoint''"
      using ppt(3) by (simp add: powerpoint_state_def)
    from single_document_fields(2) obtain m' where
      "metadata s' = Some m' \<and> map_of m' ''content_length'' =
         Some (MInt (content_length [\<lparr>page_content = content, doc_metadata = ?dm\<rparr>]))"
      unfolding s' by blast
    with ppt(1,2,4) show ?thesis
      by (intro exI [of _ "[\<lparr>page_content = content, doc_metadata = ?dm\<rparr>]"] exI [of _ m'])
         (auto simp: s' single_document_fields(1))
  qed
qed

text \<open>Where the blocks of the Excel, Word and text extractors come from.\<close>

lemma try_branch:
  assumes "fst (process_document_try env s) = Inr s'"
    and "get_str (pre_processed_content s) = []"
    and "fp = get_str (file_path s)"
    and "ext = str_lower (snd (splitext env fp))"
  shows "(ext \<in> set [''.xlsx'', ''.xls''] \<longrightarrow> fst (process_excel env s fp ext) = Inr s') \<and>
         (ext = ''.docx'' \<longrightarrow> fst (process_docx env s fp) = Inr s') \<and>
         (ext = ''.doc'' \<longrightarrow> fst (process_doc env s fp) = Inr s') \<and>
         (ext = ''.txt'' \<longrightarrow> fst (process_text env s fp) = Inr s')"
  using assms by (auto simp: process_document_try_def Let_def split: if_splits)

lemma process_excel_source:
  "fst (process_excel env s fp ext) = Inr s' \<Longrightarrow>
   \<exists>sheets. (read_excel env Openpyxl fp = Inr sheets \<or> read_excel env Xlrd fp = Inr sheets) \<and>
            documents s' = Some (excel_documents fp sheets)"
  by (auto simp: process_excel_def reraise_Inr Let_def excel_state_fields(1)
      split: sum.splits if_splits)

lemma process_docx_source:
  "fst (process_docx env s fp) = Inr s' \<Longrightarrow>
   \<exists>tx dm. docx2txt_process env fp = Inr tx \<and>
           documents s' = Some [\<lparr>page_content = tx, doc_metadata = dm\<rparr>]"
  by (auto simp: process_docx_def reraise_Inr single_document_fields(1) split: sum.splits)

lemma process_doc_source:
  "fst (process_doc env s fp) = Inr s' \<Longrightarrow>
   \<exists>tx dm. convert_file env fp None = Inr tx \<and>
           documents s' = Some [\<lparr>page_content = tx, doc_metadata = dm\<rparr>]"
  by (auto simp: process_doc_def reraise_Inr single_document_fields(1) split: sum.splits)

lemma process_text_source:
  "fst (process_text env s fp) = Inr s' \<Longrightarrow>
   \<exists>tx dm. read_text_file env fp = Inr tx \<and>
           documents s' = Some [\<lparr>page_content = tx, doc_metadata = dm\<rparr>]"
  by (auto simp: process_text_def reraise_Inr single_document_fields(1) split: sum.splits)

lemma length_excel_documents: "length (excel_documents fp sheets) = length sheets"
  by (simp add: excel_documents_def)

lemma excel_documents_Nil: "excel_documents fp sheets = [] \<longleftrightarrow> sheets = []"
  by (simp add: excel_documents_def)

text \<open>
  C7 (amended). For every supported file type, when extraction succeeds the resulting
  state holds the blocks and a metadata whose \<open>content_length\<close> is the sum of the lengths
  of all block texts. For pre-processed text, PDF and PowerPoint there is at least one
  block and no block is empty. For Excel the blocks are those of the sheets that the
  reader returned, one block per sheet and none of them empty, so there is at least one
  block when the workbook has a sheet. For \<open>.docx\<close>, \<open>.doc\<close> and \<open>.txt\<close> there is exactly
  one block, and its text is the text that the library returned for the file, which
  may be empty.
\<close>

theorem extraction_success_blocks:
  assumes ok: "fst (process_document_try env s) = Inr s'"
    and fp: "fp = get_str (file_path s)"
    and ext: "ext = str_lower (snd (splitext env fp))"
  shows "\<exists>docs m. documents s' = Some docs \<and> metadata s' = Some m \<and>
           map_of m ''content_length'' = Some (MInt (content_length docs)) \<and>
           (get_str (pre_processed_content s) \<noteq> [] \<or> ext \<in> set [''.pdf'', ''.ppt'', ''.pptx'']
              \<longrightarrow> docs \<noteq> [] \<and> (\<forall>d \<in> set docs. page_content d \<noteq> [])) \<and>
           (get_str (pre_processed_content s) = [] \<and> ext \<in> set [''.xlsx'', ''.xls'']
              \<longrightarrow> (\<exists>sheets. (read_excel env Openpyxl fp = Inr sheets \<or>
                              read_excel env Xlrd fp = Inr sheets) \<and>
                             docs = excel_documents fp sheets \<and> length docs = length sheets \<and>
                             (sheets \<noteq> [] \<longrightarrow> docs \<noteq> [])) \<and>
                  (\<forall>d \<in> set docs. page_content d \<noteq> [])) \<and>
           (get_str (pre_processed_content s) = [] \<and> ext = ''.docx''
              \<longrightarrow> (\<exists>tx. docx2txt_process env fp = Inr tx \<and> map page_content docs = [tx])) \<and>
           (get_str (pre_processed_content s) = [] \<and> ext = ''.doc''
              \<longrightarrow> (\<exists>tx. convert_file env fp None = Inr tx \<and> map page_content docs = [tx])) \<and>
           (get_str (pre_processed_content s) = [] \<and> ext = ''.txt''
              \<longrightarrow> (\<exists>tx. read_text_file env fp = Inr tx \<and> map page_content docs = [tx]))"
proof -
  have ext': "ext = str_lower (snd (splitext env (get_str (file_path s))))"
    using fp ext by simp
  from extraction_blocks_basic [OF ok ext'] obtain docs m where
    d: "documents s' = Some docs" and m: "metadata s' = Some m"
    and cl: "map_of m ''content_length'' = Some (MInt (content_length docs))"
    and ne: "get_str (pre_processed_content s) \<noteq> [] \<or> ext \<in> set [''.pdf'', ''.ppt'', ''.pptx'']
              \<longrightarrow> docs \<noteq> [] \<and> (\<forall>d \<in> set docs. page_content d \<noteq> [])"
    and xl: "get_str (pre_processed_content s) = [] \<and> ext \<in> set [''.xlsx'', ''.xls'']
              \<longrightarrow> (\<forall>d \<in> set docs. page_content d \<noteq> [])"
    by blast
  have excel: "get_str (pre_processed_content s) = [] \<and> ext \<in> set [''.xlsx'', ''.xls'']
              \<longrightarrow> (\<exists>sheets. (read_excel env Openpyxl fp = Inr sheets \<or>
                              read_excel env Xlrd fp = Inr sheets) \<and>
                             docs = excel_documents fp sheets \<and> length docs = length sheets \<and>
                             (sheets \<noteq> [] \<longrightarrow> docs \<noteq> [])) \<and>
                  (\<forall>d \<in> set docs. page_content d \<noteq> [])"
  proof
    assume a: "get_str (pre_processed_content s) = [] \<and> ext \<in> set [''.xlsx'', ''.xls'']"
    with try_branch [OF ok _ fp ext] have "fst (process_excel env s fp ext) = Inr s'" by blast
    then obtain sheets where
      "read_excel env Openpyxl fp = Inr sheets \<or> read_excel env Xlrd fp = Inr sheets"
      "documents s' = Some (excel_documents fp sheets)"
      using process_excel_source by blast
    with d have "(read_excel env Openpyxl fp = Inr sheets \<or> read_excel env Xlrd fp = Inr sheets) \<and>
        docs = excel_documents fp sheets \<and> length docs = length sheets \<and>
                             (sheets \<noteq> [] \<longrightarrow> docs \<noteq> [])"
      by (auto simp: length_excel_documents excel_documents_Nil)
    with a xl show "(\<exists>sheets. (read_excel env Openpyxl fp = Inr sheets \<or>
                              read_excel env Xlrd fp = Inr sheets) \<and>
                             docs = excel_documents fp sheets \<and> length docs = length sheets \<and>
                             (sheets \<noteq> [] \<longrightarrow> docs \<noteq> [])) \<and>
                  (\<forall>d \<in> set docs. page_content d \<noteq> [])"
      by blast
  qed
  have docx: "get_str (pre_processed_content s) = [] \<and> ext = ''.docx''
              \<longrightarrow> (\<exists>tx. docx2txt_process env fp = Inr tx \<and> map page_content docs = [tx])"
  proof
    assume a: "get_str (pre_processed_content s) = [] \<and> ext = ''.docx''"
    with try_branch [OF ok _ fp ext] have "fst (process_docx env s fp) = Inr s'" by blast
    then obtain tx dm where "docx2txt_process env fp = Inr tx"
      "documents s' = Some [\<lparr>page_content = tx, doc_metadata = dm\<rparr>]"
      using process_docx_source by blast
    with d have "docx2txt_process env fp = Inr tx \<and> map page_content docs = [tx]" by auto
    then show "\<exists>tx. docx2txt_process env fp = Inr tx \<and> map page_content docs = [tx]" ..
  qed
  have doc: "get_str (pre_processed_content s) = [] \<and> ext = ''.doc''
              \<longrightarrow> (\<exists>tx. convert_file env fp None = Inr tx \<and> map page_content docs = [tx])"
  proof
    assume a: "get_str (pre_processed_content s) = [] \<and> ext = ''.doc''"
    with try_branch [OF ok _ fp ext] have "fst (process_doc env s fp) = Inr s'" by blast
    then obtain tx dm where "convert_file env fp None = Inr tx"
      "documents s' = Some [\<lparr>page_content = tx, doc_metadata = dm\<rparr>]"
      using process_doc_source by blast
    with d have "convert_file env fp None = Inr tx \<and> map page_content docs = [tx]" by auto
    then show "\<exists>tx. convert_file env fp None = Inr tx \<and> map page_content docs = [tx]" ..
  qed
  have plain: "get_str (pre_processed_content s) = [] \<and> ext = ''.txt''
              \<longrightarrow> (\<exists>tx. read_text_file env fp = Inr tx \<and> map page_content docs = [tx])"
  proof
    assume a: "get_str (pre_processed_content s) = [] \<and> ext = ''.txt''"
    with try_branch [OF ok _ fp ext] have "fst (process_text env s fp) = Inr s'" by blast
    then obtain tx dm where "read_text_file env fp = Inr tx"
      "documents s' = Some [\<lparr>page_content = tx, doc_metadata = dm\<rparr>]"
      using process_text_source by blast
    with d have "read_text_file env fp = Inr tx \<and> map page_content docs = [tx]" by auto
    then show "\<exists>tx. read_text_file env fp = Inr tx \<and> map page_content docs = [tx]" ..
  qed
  show ?thesis
    apply (rule exI [of _ docs], rule exI [of _ m])
    apply (intro conjI)
           apply (rule d m cl ne excel docx doc plain)+
    done
qed

text \<open>A successful extraction leaves the \<open>error\<close> field as it was.\<close>

lemma try_success_error:
  assumes "fst (process_document_try env s) = Inr s'"
  shows "error s' = error s"
  using try_success_cases [OF assms refl refl]
  by (auto simp: single_document_fields(3) excel_state_fields(3) pdf_state_fields(3)
      powerpoint_state_def)

section \<open>Runs in the sample environment\<close>

lemma sample_ext:
  "str_lower (snd (splitext sample_env ''bundle.zip'')) = ''.zip''"
  "str_lower (snd (splitext sample_env ''notes.txt'')) = ''.txt''"
  "str_lower (snd (splitext sample_env ''blank.txt'')) = ''.txt''"
  "str_lower (snd (splitext sample_env ''book.xlsx'')) = ''.xlsx''"
  "str_lower (snd (splitext sample_env ''old.xls'')) = ''.xls''"
  "str_lower (snd (splitext sample_env ''scan.pdf'')) = ''.pdf''"
  "str_lower (snd (splitext sample_env ''void.pdf'')) = ''.pdf''"
  by code_simp+

lemma sample_clean: "pdf_clean (''Invoice  total :  42 .'' @ [nl]) = ''Invoice total : 42.''"
  by code_simp

lemma file_state_fields:
  "get_str (pre_processed_content (state_with_file q fp)) = []"
  "get_str (file_path (state_with_file q fp)) = fp"
  "error (state_with_file q fp) = None"
  by (simp_all add: state_with_file_def initial_state_def get_str_def)

lemma try_blank_txt:
  "process_document_try sample_env (state_with_file q ''blank.txt'') =
     (Inr (single_document (state_with_file q ''blank.txt'') []
             [(''source'', MStr ''blank.txt''), (''file_type'', MStr ''text'')] ''text''),
      [ExtractorCall Text ''blank.txt'', ReadTextFile ''blank.txt''])"
  by (simp add: process_document_try_def file_state_fields sample_ext process_text_def reraise_def)
     (simp add: sample_env_def Let_def)

lemma try_notes_txt:
  "process_document_try sample_env (state_with_file q ''notes.txt'') =
     (Inr (single_document (state_with_file q ''notes.txt'') ''Revenue: $42,000''
             [(''source'', MStr ''notes.txt''), (''file_type'', MStr ''text'')] ''text''),
      [ExtractorCall Text ''notes.txt'', ReadTextFile ''notes.txt''])"
  by (simp add: process_document_try_def file_state_fields sample_ext process_text_def reraise_def)
     (simp add: sample_env_def Let_def)

lemma try_bundle_zip:
  "process_document_try sample_env (state_with_file q ''bundle.zip'') =
     (Inl (Exn ValueError ''Unsupported file type: .zip''), [])"
  by (simp add: process_document_try_def file_state_fields sample_ext)

section \<open>The dispatcher\<close>

text \<open>
  C4. \<open>process_document\<close> never raises: it is a total function into states. Every
  exception that reaches the handler of its \<open>try\<close>, raised by the dispatch or inside the
  extractor it delegates to, becomes the text of the \<open>error\<close> field, and every other
  field of the input state is returned as it was.
\<close>

theorem process_document_converts_exceptions:
  assumes "fst (process_document_try env s) = Inl e"
  shows "error (fst (process_document env s)) = Some (''Error processing document: '' @ exn_str e) \<and>
         file_path (fst (process_document env s)) = file_path s \<and>
         pre_processed_content (fst (process_document env s)) = pre_processed_content s \<and>
         question (fst (process_document env s)) = question s \<and>
         documents (fst (process_document env s)) = documents s \<and>
         metadata (fst (process_document env s)) = metadata s \<and>
         answer (fst (process_document env s)) = answer s \<and>
         snd (process_document env s) = snd (process_document_try env s)"
proof -
  obtain r t where rt: "process_document_try env s = (r, t)"
    by (cases "process_document_try env s")
  with assms have "r = Inl e" by simp
  with rt show ?thesis by (simp add: process_document_def)
qed

lemma try_book_xlsx:
  "process_document_try sample_env (state_with_file q ''book.xlsx'') =
     (Inl (Exn ValueError
        ''Error processing Excel file: Excel processing error: Pandas requires version 3.1.0 or newer of openpyxl''),
      [ExtractorCall Excel ''book.xlsx'', ReadExcel Openpyxl ''book.xlsx''])"
  by (simp add: process_document_try_def file_state_fields sample_ext process_excel_def reraise_def)
     (simp add: sample_env_def Let_def)

theorem process_document_converts_exceptions_witness:
  "fst (process_document_try sample_env (state_with_file ''What is the revenue?'' ''book.xlsx'')) =
     Inl (Exn ValueError
        ''Error processing Excel file: Excel processing error: Pandas requires version 3.1.0 or newer of openpyxl'') \<and>
   error (fst (process_document sample_env (state_with_file ''What is the revenue?'' ''book.xlsx''))) =
     Some ''Error processing document: Error processing Excel file: Excel processing error: Pandas requires version 3.1.0 or newer of openpyxl'' \<and>
   file_path (fst (process_document sample_env (state_with_file ''What is the revenue?'' ''book.xlsx''))) =
     Some ''book.xlsx'' \<and>
   question (fst (process_document sample_env (state_with_file ''What is the revenue?'' ''book.xlsx''))) =
     Some ''What is the revenue?''"
proof -
  have h: "fst (process_document_try sample_env (state_with_file ''What is the revenue?'' ''book.xlsx'')) =
     Inl (Exn ValueError
        ''Error processing Excel file: Excel processing error: Pandas requires version 3.1.0 or newer of openpyxl'')"
    by (simp add: try_book_xlsx)
  from process_document_converts_exceptions [OF h] h show ?thesis
    by (simp add: state_with_file_def initial_state_def)
qed

text \<open>
  C5. For every file path that the dispatcher dispatches on (the state holds no
  pre-processed content and the path is not empty) and whose lowercased extension is
  none of \<open>.xlsx .xls .docx .doc .pdf .txt .ppt .pptx\<close>, \<open>process_document\<close> returns the
  state with the unsupported-type message in its \<open>error\<close> field and does nothing to the
  outside: no extractor is entered and no library is called.
\<close>

theorem unsupported_extension:
  assumes "get_str (pre_processed_content s) = []"
    and "get_str (file_path s) = fp" and "fp \<noteq> []"
    and "str_lower (snd (splitext env fp)) \<notin>
           set [''.xlsx'', ''.xls'', ''.docx'', ''.doc'', ''.pdf'', ''.txt'', ''.ppt'', ''.pptx'']"
  shows "process_document env s =
           (s\<lparr>error := Some (''Error processing document: '' @ ''Unsupported file type: '' @
                                str_lower (snd (splitext env fp)))\<rparr>, [])"
  using assms by (simp add: process_document_def process_document_try_def Let_def)

theorem unsupported_extension_witness:
  "process_document sample_env (state_with_file ''What is the revenue?'' ''bundle.zip'') =
     ((state_with_file ''What is the revenue?'' ''bundle.zip'')
        \<lparr>error := Some ''Error processing document: Unsupported file type: .zip''\<rparr>, [])"
proof -
  let ?s = "state_with_file ''What is the revenue?'' ''bundle.zip''"
  have h1: "get_str (pre_processed_content ?s) = []" by (simp add: file_state_fields)
  have h2: "get_str (file_path ?s) = ''bundle.zip''" by (simp add: file_state_fields)
  have h3: "''bundle.zip'' \<noteq> []" by simp
  have h4: "str_lower (snd (splitext sample_env ''bundle.zip'')) \<notin>
           set [''.xlsx'', ''.xls'', ''.docx'', ''.doc'', ''.pdf'', ''.txt'', ''.ppt'', ''.pptx'']"
    by (simp add: sample_ext)
  from unsupported_extension [OF h1 h2 h3 h4] show ?thesis by (simp add: sample_ext)
qed

section \<open>The pipeline\<close>

lemma answer_error_fields:
  "error (answer_error s e) = error s" "\<exists>y. answer (answer_error s e) = Some y"
  by (simp_all add: answer_error_def Let_def)

lemma answer_question_error: "error (fst (answer_question env s)) = error s"
  by (simp add: answer_question_def Let_def answer_error_fields split: option.splits sum.splits)

lemma answer_question_answer: "answer (fst (answer_question env s)) \<noteq> None"
  by (simp add: answer_question_def Let_def answer_error_fields split: option.splits sum.splits)

lemma graph_invoke_state:
  "fst (graph_invoke env s) = fst (answer_question env (fst (process_document env s)))"
  by (simp add: graph_invoke_def split: prod.splits)

lemma process_document_error:
  "error (fst (process_document env s)) =
     (case fst (process_document_try env s) of
        Inr s' \<Rightarrow> error s
      | Inl e \<Rightarrow> Some (''Error processing document: '' @ exn_str e))"
proof (cases "process_document_try env s")
  case (Pair r t)
  show ?thesis
  proof (cases r)
    case (Inl e)
    with Pair show ?thesis by (simp add: process_document_def)
  next
    case (Inr s')
    with Pair have "fst (process_document_try env s) = Inr s'" by simp
    then have "error s' = error s" by (rule try_success_error)
    with Pair Inr show ?thesis by (simp add: process_document_def)
  qed
qed

text \<open>
  C1 (amended). For every pipeline run on a state without an error, the \<open>answer\<close> field
  is set at completion; the \<open>error\<close> field is unset when the extraction succeeded, so
  exactly one of the two is set, and it holds the message of the failure when the
  extraction failed, so both are set.
\<close>

theorem pipeline_answer_and_error:
  assumes "error s = None"
  shows "answer (fst (graph_invoke env s)) \<noteq> None \<and>
         error (fst (graph_invoke env s)) =
           (case fst (process_document_try env s) of
              Inr s' \<Rightarrow> None
            | Inl e \<Rightarrow> Some (''Error processing document: '' @ exn_str e))"
  using assms
  by (simp add: graph_invoke_state answer_question_answer answer_question_error
      process_document_error split: sum.splits)

theorem pipeline_answer_and_error_witness:
  "error (state_with_file ''What is the revenue?'' ''notes.txt'') = None \<and>
   answer (fst (graph_invoke sample_env (state_with_file ''What is the revenue?'' ''notes.txt''))) \<noteq> None \<and>
   error (fst (graph_invoke sample_env (state_with_file ''What is the revenue?'' ''notes.txt''))) = None"
proof -
  have h: "error (state_with_file ''What is the revenue?'' ''notes.txt'') = None"
    by (simp add: file_state_fields)
  from pipeline_answer_and_error [OF h, of sample_env] h show ?thesis
    by (simp add: try_notes_txt)
qed

text \<open>C1 as stated fails on a file of an unsupported type: the first node sets \<open>error\<close>,
  and the second, which looks at the documents only, sets \<open>answer\<close>.\<close>

theorem pipeline_counterexample:
  "answer (fst (graph_invoke sample_env (state_with_file ''What is the revenue?'' ''bundle.zip''))) =
     Some no_documents_answer \<and>
   error (fst (graph_invoke sample_env (state_with_file ''What is the revenue?'' ''bundle.zip''))) =
     Some ''Error processing document: Unsupported file type: .zip''"
  by (simp add: graph_invoke_state process_document_def try_bundle_zip answer_question_def)
     (simp add: state_with_file_def initial_state_def)

section \<open>The agent\<close>

text \<open>
  C10 (amended). For every call of \<open>run\<close> with a pre-processed content that is not empty
  and has fewer than 10 characters, \<open>run\<close> returns the fixed message and the graph is not
  invoked: no node runs, no extractor, no call of the language model.
\<close>

theorem run_short_content:
  assumes "content \<noteq> []" and "length content < 10"
  shows "run env q fp (Some content) = (too_short_answer, [])"
  using assms by (simp add: run_def get_str_def)

theorem run_short_content_witness:
  "run sample_env ''What is the revenue?'' (Some ''notes.txt'') (Some ''Revenue'') = (too_short_answer, [])"
proof -
  have h1: "''Revenue'' \<noteq> []" by simp
  have h2: "length ''Revenue'' < 10" by simp
  show ?thesis by (rule run_short_content [OF h1 h2])
qed

section \<open>The Excel and the PDF extractor\<close>

text \<open>
  C3 (amended). For every Excel file, when the read with the openpyxl engine fails with
  an exception that is not an \<open>ImportError\<close>, the extractor reads once more, with the xlrd
  engine, and it fails exactly when that read fails too. When the read with openpyxl
  raises an \<open>ImportError\<close>, the extractor fails at once and xlrd is not tried.
\<close>

theorem excel_engine_fallback:
  assumes "openpyxl_installed env" and "read_excel env Openpyxl fp = Inl e"
  shows "(exn_class e = ImportError \<longrightarrow>
            process_excel env s fp ext =
              (Inl (Exn ValueError
                 (''Error processing Excel file: '' @ ''Excel processing error: '' @ exn_str e)),
               [ExtractorCall Excel fp, ReadExcel Openpyxl fp])) \<and>
         (exn_class e \<noteq> ImportError \<longrightarrow>
            snd (process_excel env s fp ext) =
              [ExtractorCall Excel fp, ReadExcel Openpyxl fp, ReadExcel Xlrd fp] \<and>
            (isl (fst (process_excel env s fp ext)) \<longleftrightarrow> isl (read_excel env Xlrd fp)))"
  using assms
  by (auto simp: process_excel_def reraise_def split: sum.splits)

theorem excel_engine_fallback_witness:
  "read_excel sample_env Openpyxl ''old.xls'' = Inl (Exn OtherError ''File is not a zip file'') \<and>
   snd (process_excel sample_env (state_with_file ''What is the total?'' ''old.xls'') ''old.xls'' ''.xls'') =
     [ExtractorCall Excel ''old.xls'', ReadExcel Openpyxl ''old.xls'', ReadExcel Xlrd ''old.xls''] \<and>
   \<not> isl (fst (process_excel sample_env (state_with_file ''What is the total?'' ''old.xls'')
                 ''old.xls'' ''.xls''))"
proof -
  have h1: "openpyxl_installed sample_env" by (simp add: sample_env_def)
  have h2: "read_excel sample_env Openpyxl ''old.xls'' = Inl (Exn OtherError ''File is not a zip file'')"
    by (simp add: sample_env_def)
  have h3: "\<not> isl (read_excel sample_env Xlrd ''old.xls'')" by (simp add: sample_env_def)
  from excel_engine_fallback [OF h1 h2] h2 h3 show ?thesis by simp
qed

text \<open>C3 as stated fails when the read with openpyxl raises \<open>ImportError\<close>: the extractor
  fails and no read with xlrd has been made.\<close>

theorem excel_engine_counterexample:
  "read_excel sample_env Openpyxl ''book.xlsx'' =
     Inl (Exn ImportError ''Pandas requires version 3.1.0 or newer of openpyxl'') \<and>
   isl (fst (process_excel sample_env (state_with_file ''What is the total?'' ''book.xlsx'')
              ''book.xlsx'' ''.xlsx'')) \<and>
   ReadExcel Xlrd ''book.xlsx'' \<notin>
     set (snd (process_excel sample_env (state_with_file ''What is the total?'' ''book.xlsx'')
                 ''book.xlsx'' ''.xlsx''))"
  by (simp add: process_excel_def reraise_def sample_env_def)

lemma pdf_pages_blank:
  "\<forall>p \<in> set pages. \<exists>tx. p = Inr tx \<and> \<not> non_blank tx \<Longrightarrow>
   pdf_pages fp i pages docs = (Inr docs, map (\<lambda>j. ExtractPage fp (Suc j)) [i..<i + length pages])"
proof (induction pages arbitrary: i)
  case Nil
  then show ?case by simp
next
  case (Cons page pages)
  from Cons.prems obtain tx where p: "page = Inr tx" "\<not> non_blank tx" by auto
  from Cons.prems have "\<forall>p \<in> set pages. \<exists>tx. p = Inr tx \<and> \<not> non_blank tx" by simp
  then have ih: "pdf_pages fp (Suc i) pages docs =
      (Inr docs, map (\<lambda>j. ExtractPage fp (Suc j)) [Suc i..<Suc i + length pages])"
    by (rule Cons.IH)
  have "[i..<i + length (page # pages)] = i # [Suc i..<Suc i + length pages]"
    by (subst upt_rec) simp
  with p ih show ?case by (simp del: upt_Suc)
qed

text \<open>
  C6. For every PDF in which every page gives an empty or white-space-only text, the
  extractor calls the converter after the last page, and it raises, with the message
  that no text was found, exactly when the converter raises or gives no text other than
  white space.
\<close>

theorem pdf_blank_pages_fallback:
  assumes "pdf_reader env fp = Inr pages"
    and "\<forall>p \<in> set pages. \<exists>tx. p = Inr tx \<and> \<not> non_blank tx"
  shows "snd (process_pdf env s fp) =
           ExtractorCall Pdf fp # OpenPdf fp #
           map (\<lambda>j. ExtractPage fp (Suc j)) [0..<length pages] @ [PandocConvert fp None] \<and>
         (isl (fst (process_pdf env s fp)) \<longleftrightarrow>
            \<not> (\<exists>tx. convert_file env fp None = Inr tx \<and> non_blank tx)) \<and>
         (isl (fst (process_pdf env s fp)) \<longrightarrow>
            fst (process_pdf env s fp) =
              Inl (Exn ValueError (''Error processing PDF file: '' @
                ''No text content found in PDF. The PDF might be scanned or protected.'')))"
proof -
  have pp: "pdf_pages fp 0 pages [] = (Inr [], map (\<lambda>j. ExtractPage fp (Suc j)) [0..<length pages])"
    using pdf_pages_blank [OF assms(2), of fp 0 "[]"] by simp
  show ?thesis
  proof (cases "convert_file env fp None")
    case (Inl e)
    with assms(1) pp show ?thesis
      by (simp add: process_pdf_def pdf_fallback_def reraise_def)
  next
    case (Inr tx)
    with assms(1) pp show ?thesis
      by (simp add: process_pdf_def pdf_fallback_def reraise_def)
  qed
qed

section \<open>Sample runs of the extractors\<close>

lemma scan_pages:
  "pdf_reader sample_env ''scan.pdf'' = Inr [Inr [], Inr ('' '' @ [nl])]"
  "\<forall>p \<in> set [Inr [], Inr ('' '' @ [nl])]. \<exists>tx. p = Inr tx \<and> \<not> non_blank tx"
  by (simp_all add: sample_env_def non_blank_def str_strip_empty_iff is_space_def nl_def)

lemma scan_converted:
  "convert_file sample_env ''scan.pdf'' None = Inr (''Invoice  total :  42 .'' @ [nl])"
  "non_blank (''Invoice  total :  42 .'' @ [nl])"
  by (simp_all add: sample_env_def non_blank_iff is_space_def)

theorem pdf_blank_pages_fallback_witness:
  "snd (process_pdf sample_env (state_with_file ''What is the total?'' ''scan.pdf'') ''scan.pdf'') =
     [ExtractorCall Pdf ''scan.pdf'', OpenPdf ''scan.pdf'', ExtractPage ''scan.pdf'' 1,
      ExtractPage ''scan.pdf'' 2, PandocConvert ''scan.pdf'' None] \<and>
   \<not> isl (fst (process_pdf sample_env (state_with_file ''What is the total?'' ''scan.pdf'') ''scan.pdf''))"
proof -
  have c: "\<exists>tx. convert_file sample_env ''scan.pdf'' None = Inr tx \<and> non_blank tx"
    using scan_converted by blast
  have u: "[0..<length [Inr [] :: exn + string, Inr ('' '' @ [nl])]] = [0, 1]"
    by (simp add: upt_rec)
  from pdf_blank_pages_fallback [OF scan_pages] c u show ?thesis by simp
qed

lemma try_scan_pdf:
  "fst (process_document_try sample_env (state_with_file q ''scan.pdf'')) =
     Inr (pdf_state (state_with_file q ''scan.pdf'') 2
            [\<lparr>page_content = ''Invoice  total :  42 .'' @ [nl],
              doc_metadata = [(''source'', MStr ''scan.pdf''), (''file_type'', MStr ''pdf''),
                              (''extraction_method'', MStr ''pypandoc'')]\<rparr>])"
  using scan_converted(2)
  by (simp add: process_document_try_def file_state_fields sample_ext process_pdf_def reraise_def
      scan_pages(1) non_blank_def str_strip_empty_iff is_space_def nl_def pdf_fallback_def
      scan_converted(1) Let_def)
     (simp add: numeral_2_eq_2)

lemma notes_source: "read_text_file sample_env ''notes.txt'' = Inr ''Revenue: $42,000''"
  by (simp add: sample_env_def)

text \<open>The scanned PDF gives one cleaned block of 19 characters; the text file gives one
  block, the text of the file.\<close>

theorem extraction_success_blocks_witness:
  "(fst (process_document_try sample_env (state_with_file ''What is the total?'' ''scan.pdf'')) =
     Inr (pdf_state (state_with_file ''What is the total?'' ''scan.pdf'') 2
            [\<lparr>page_content = ''Invoice  total :  42 .'' @ [nl],
              doc_metadata = [(''source'', MStr ''scan.pdf''), (''file_type'', MStr ''pdf''),
                              (''extraction_method'', MStr ''pypandoc'')]\<rparr>]) \<and>
   documents (pdf_state (state_with_file ''What is the total?'' ''scan.pdf'') 2
            [\<lparr>page_content = ''Invoice  total :  42 .'' @ [nl],
              doc_metadata = [(''source'', MStr ''scan.pdf''), (''file_type'', MStr ''pdf''),
                              (''extraction_method'', MStr ''pypandoc'')]\<rparr>]) =
     Some [\<lparr>page_content = ''Invoice total : 42.'',
            doc_metadata = [(''source'', MStr ''scan.pdf''), (''file_type'', MStr ''pdf''),
                            (''extraction_method'', MStr ''pypandoc'')]\<rparr>] \<and>
   (\<exists>m. metadata (pdf_state (state_with_file ''What is the total?'' ''scan.pdf'') 2
            [\<lparr>page_content = ''Invoice  total :  42 .'' @ [nl],
              doc_metadata = [(''source'', MStr ''scan.pdf''), (''file_type'', MStr ''pdf''),
                              (''extraction_method'', MStr ''pypandoc'')]\<rparr>]) = Some m \<and>
        map_of m ''content_length'' = Some (MInt 19))) \<and>
   (fst (process_document_try sample_env (state_with_file ''What is the revenue?'' ''notes.txt'')) =
     Inr (single_document (state_with_file ''What is the revenue?'' ''notes.txt'') ''Revenue: $42,000''
            [(''source'', MStr ''notes.txt''), (''file_type'', MStr ''text'')] ''text'') \<and>
    (\<exists>docs. documents (single_document (state_with_file ''What is the revenue?'' ''notes.txt'')
               ''Revenue: $42,000''
               [(''source'', MStr ''notes.txt''), (''file_type'', MStr ''text'')] ''text'') = Some docs \<and>
          map page_content docs = [''Revenue: $42,000'']))"
proof (rule conjI)
  let ?s = "state_with_file ''What is the total?'' ''scan.pdf''"
  let ?d = "\<lparr>page_content = ''Invoice  total :  42 .'' @ [nl],
              doc_metadata = [(''source'', MStr ''scan.pdf''), (''file_type'', MStr ''pdf''),
                              (''extraction_method'', MStr ''pypandoc'')]\<rparr>"
  let ?c = "\<lparr>page_content = ''Invoice total : 42.'',
            doc_metadata = [(''source'', MStr ''scan.pdf''), (''file_type'', MStr ''pdf''),
                            (''extraction_method'', MStr ''pypandoc'')]\<rparr>"
  have h: "fst (process_document_try sample_env ?s) = Inr (pdf_state ?s 2 [?d])"
    by (rule try_scan_pdf)
  have d: "documents (pdf_state ?s 2 [?d]) = Some [?c]"
    using sample_clean by (simp add: pdf_state_fields(1) pdf_cleaned_def)
  from extraction_success_blocks [OF h refl refl] obtain docs m where
    dm: "documents (pdf_state ?s 2 [?d]) = Some docs" "metadata (pdf_state ?s 2 [?d]) = Some m"
      "map_of m ''content_length'' = Some (MInt (content_length docs))"
    by blast
  from dm(1) d have "docs = [?c]" by simp
  then have "content_length docs = 19" by (simp add: content_length_def)
  with dm(2,3) have "\<exists>m. metadata (pdf_state ?s 2 [?d]) = Some m \<and>
        map_of m ''content_length'' = Some (MInt 19)" by simp
  with h d show "fst (process_document_try sample_env ?s) = Inr (pdf_state ?s 2 [?d]) \<and>
      documents (pdf_state ?s 2 [?d]) = Some [?c] \<and>
      (\<exists>m. metadata (pdf_state ?s 2 [?d]) = Some m \<and> map_of m ''content_length'' = Some (MInt 19))"
    by blast
next
  let ?s = "state_with_file ''What is the revenue?'' ''notes.txt''"
  let ?s' = "single_document ?s ''Revenue: $42,000''
               [(''source'', MStr ''notes.txt''), (''file_type'', MStr ''text'')] ''text''"
  have h: "fst (process_document_try sample_env ?s) = Inr ?s'" by (simp add: try_notes_txt)
  have f: "''notes.txt'' = get_str (file_path ?s)" by (simp add: file_state_fields)
  have e: "''.txt'' = str_lower (snd (splitext sample_env ''notes.txt''))" by (simp add: sample_ext)
  have g: "get_str (pre_processed_content ?s) = [] \<and> ''.txt'' = ''.txt''"
    by (simp add: file_state_fields)
  from extraction_success_blocks [OF h f e]
  have "\<exists>docs. documents ?s' = Some docs \<and> map page_content docs = [''Revenue: $42,000'']"
  proof (elim exE conjE)
    fix docs m
    assume d: "documents ?s' = Some docs"
      and p: "get_str (pre_processed_content ?s) = [] \<and> ''.txt'' = ''.txt''
       \<longrightarrow> (\<exists>tx. read_text_file sample_env ''notes.txt'' = Inr tx \<and> map page_content docs = [tx])"
    from p g have "\<exists>tx. read_text_file sample_env ''notes.txt'' = Inr tx \<and> map page_content docs = [tx]"
      by (rule mp)
    then have "map page_content docs = [''Revenue: $42,000'']"
      by (auto simp: notes_source)
    with d show ?thesis by (intro exI [of _ docs] conjI)
  qed
  with h show "fst (process_document_try sample_env ?s) = Inr ?s' \<and>
      (\<exists>docs. documents ?s' = Some docs \<and> map page_content docs = [''Revenue: $42,000''])"
    by (rule conjI)
qed

text \<open>C7 as stated fails on an empty text file: the extraction succeeds and its only
  block is empty.\<close>

theorem extraction_blocks_counterexample:
  "fst (process_document_try sample_env (state_with_file ''What is the revenue?'' ''blank.txt'')) =
     Inr (single_document (state_with_file ''What is the revenue?'' ''blank.txt'') []
            [(''source'', MStr ''blank.txt''), (''file_type'', MStr ''text'')] ''text'') \<and>
   documents (single_document (state_with_file ''What is the revenue?'' ''blank.txt'') []
            [(''source'', MStr ''blank.txt''), (''file_type'', MStr ''text'')] ''text'') =
     Some [\<lparr>page_content = [],
            doc_metadata = [(''source'', MStr ''blank.txt''), (''file_type'', MStr ''text'')]\<rparr>] \<and>
   \<not> (\<exists>d \<in> set [\<lparr>page_content = [],
            doc_metadata = [(''source'', MStr ''blank.txt''), (''file_type'', MStr ''text'')]\<rparr>].
          page_content d \<noteq> [])"
  by (simp add: try_blank_txt single_document_fields(1))

section \<open>A sample run of the agent\<close>

lemma lower_strip_revenue:
  "str_strip (str_lower ''what is the revenue?'') = ''what is the revenue?''"
  by code_simp

lemma notes_answer:
  "answer_question sample_env
     (single_document (state_with_file ''what is the revenue?'' ''notes.txt'') ''Revenue: $42,000''
        [(''source'', MStr ''notes.txt''), (''file_type'', MStr ''text'')] ''text'') =
   ((single_document (state_with_file ''what is the revenue?'' ''notes.txt'') ''Revenue: $42,000''
        [(''source'', MStr ''notes.txt''), (''file_type'', MStr ''text'')] ''text'')
      \<lparr>answer := Some ''The revenue is $42,000.''\<rparr>,
    [ChatGroqInit,
     LLMInvoke ''text file'' (''Revenue: $42,000'' @ [nl, nl]) ''what is the revenue?''])"
proof -
  have b: "str_strip (documents_content
      [\<lparr>page_content = ''Revenue: $42,000'',
        doc_metadata = [(''source'', MStr ''notes.txt''), (''file_type'', MStr ''text'')]\<rparr>]) \<noteq> []"
    by (simp add: str_strip_empty_iff documents_content_def is_space_def)
  have c: "documents_content
      [\<lparr>page_content = ''Revenue: $42,000'',
        doc_metadata = [(''source'', MStr ''notes.txt''), (''file_type'', MStr ''text'')]\<rparr>] =
      ''Revenue: $42,000'' @ [nl, nl]"
    by (simp add: documents_content_def)
  have q: "question (single_document (state_with_file ''what is the revenue?'' ''notes.txt'')
        ''Revenue: $42,000'' [(''source'', MStr ''notes.txt''), (''file_type'', MStr ''text'')] ''text'') =
      Some ''what is the revenue?''"
    by (simp add: single_document_def extracted_def state_with_file_def initial_state_def)
  show ?thesis
    using b
    by (simp add: answer_question_def single_document_fields(1) q get_str_def lower_strip_revenue
        raw_content_phrases_def file_type_desc_def Let_def c)
       (simp add: sample_env_def q get_str_def lower_strip_revenue raw_content_phrases_def
        file_type_desc_def Let_def)
qed

text \<open>C10 as stated fails on the empty content, which has fewer than 10 characters and
  counts as no content: without a file \<open>run\<close> returns the message that no document was
  provided, and with a file it runs the whole pipeline on the file.\<close>

theorem run_short_content_counterexample:
  "length ([] :: string) < 10 \<and>
   too_short_answer \<noteq> ''No document provided. Please provide either a file path or pre-processed content.'' \<and>
   too_short_answer \<noteq> ''The revenue is $42,000.'' \<and>
   run sample_env ''what is the revenue?'' None (Some []) =
     (''No document provided. Please provide either a file path or pre-processed content.'', []) \<and>
   run sample_env ''what is the revenue?'' (Some ''notes.txt'') (Some []) =
     (''The revenue is $42,000.'',
      [NodeRun ''process_document'', ExtractorCall Text ''notes.txt'', ReadTextFile ''notes.txt'',
       NodeRun ''answer_question'', ChatGroqInit,
       LLMInvoke ''text file'' (''Revenue: $42,000'' @ [nl, nl]) ''what is the revenue?''])"
proof (intro conjI)
  show "length ([] :: string) < 10" by simp
  show "too_short_answer \<noteq> ''No document provided. Please provide either a file path or pre-processed content.''"
    by (simp add: too_short_answer_def)
  show "too_short_answer \<noteq> ''The revenue is $42,000.''"
    by (simp add: too_short_answer_def)
  show "run sample_env ''what is the revenue?'' None (Some []) =
     (''No document provided. Please provide either a file path or pre-processed content.'', [])"
    by (simp add: run_def get_str_def)
  have e: "path_exists sample_env ''notes.txt''" by (simp add: sample_env_def)
  have s: "(initial_state ''what is the revenue?'')\<lparr>file_path := Some ''notes.txt''\<rparr> =
      state_with_file ''what is the revenue?'' ''notes.txt''"
    by (simp add: state_with_file_def)
  have g: "graph_invoke sample_env (state_with_file ''what is the revenue?'' ''notes.txt'') =
     ((single_document (state_with_file ''what is the revenue?'' ''notes.txt'') ''Revenue: $42,000''
        [(''source'', MStr ''notes.txt''), (''file_type'', MStr ''text'')] ''text'')
      \<lparr>answer := Some ''The revenue is $42,000.''\<rparr>,
      [NodeRun ''process_document'', ExtractorCall Text ''notes.txt'', ReadTextFile ''notes.txt'',
       NodeRun ''answer_question'', ChatGroqInit,
       LLMInvoke ''text file'' (''Revenue: $42,000'' @ [nl, nl]) ''what is the revenue?''])"
    by (simp add: graph_invoke_def process_document_def try_notes_txt notes_answer)
  show "run sample_env ''what is the revenue?'' (Some ''notes.txt'') (Some []) =
     (''The revenue is $42,000.'',
      [NodeRun ''process_document'', ExtractorCall Text ''notes.txt'', ReadTextFile ''notes.txt'',
       NodeRun ''answer_question'', ChatGroqInit,
       LLMInvoke ''text file'' (''Revenue: $42,000'' @ [nl, nl]) ''what is the revenue?''])"
    using e
    by (simp add: run_def get_str_def s run_graph_def g single_document_fields(3) file_state_fields(3))
qed

end
